theory Spec2Isabelle
  imports Complex_Main "HOL-Library.List_Lexorder" "HOL-Library.Product_Lexorder"
    "HOL-Library.Code_Target_Nat"
begin

section \<open>Python strings\<close>

text \<open>
  A Python \<open>str\<close> is a sequence of Unicode code points, so a string is a list of
  natural numbers. \<open>ustr\<close> embeds an ASCII literal; characters outside ASCII are
  written by code point (\<open>247\<close> is the division sign, \<open>916\<close> the capital delta).
\<close>

type_synonym ustring = "nat list"

definition ustr :: "string \<Rightarrow> ustring" where
  "ustr s = map of_char s"

text \<open>\<open>str.isspace\<close>: the code points \<open>str.strip()\<close> removes.\<close>

definition py_isspace :: "nat \<Rightarrow> bool" where
  "py_isspace c \<longleftrightarrow>
     (9 \<le> c \<and> c \<le> 13) \<or> (28 \<le> c \<and> c \<le> 32) \<or> c = 133 \<or> c = 160 \<or> c = 5760 \<or>
     (8192 \<le> c \<and> c \<le> 8202) \<or> c = 8232 \<or> c = 8233 \<or> c = 8239 \<or> c = 8287 \<or>
     c = 12288"

definition py_strip :: "ustring \<Rightarrow> ustring" where
  "py_strip s = rev (dropWhile py_isspace (rev (dropWhile py_isspace s)))"

text \<open>\<open>s.replace(old, new)\<close> for a one-character \<open>old\<close>.\<close>

definition py_replace :: "nat \<Rightarrow> ustring \<Rightarrow> ustring \<Rightarrow> ustring" where
  "py_replace old new s = concat (map (\<lambda>c. if c = old then new else [c]) s)"

text \<open>
  \<open>str.lower\<close>, character by character. ASCII capitals move to their small letters.
  Two characters outside ASCII have a lowercase form that contains an ASCII letter:
  U+0130 (304) becomes \<open>i\<close> followed by U+0307 (775), and the Kelvin sign U+212A
  (8490) becomes \<open>k\<close>. Every other character has a lowercase form without ASCII
  characters; the program compares lowercase text with ASCII keywords only, so such a
  character is kept as it is.
\<close>

definition py_lower_char :: "nat \<Rightarrow> ustring" where
  "py_lower_char c =
     (if 65 \<le> c \<and> c \<le> 90 then [c + 32]
      else if c = 304 then [105, 775]
      else if c = 8490 then [107]
      else [c])"

definition py_lower :: "ustring \<Rightarrow> ustring" where
  "py_lower s = concat (map py_lower_char s)"

text \<open>\<open>s.split(sep)\<close> for a one-character separator: one more piece than separators.\<close>

fun split_from :: "nat \<Rightarrow> ustring \<Rightarrow> ustring \<Rightarrow> ustring list" where
  "split_from sep cur [] = [rev cur]"
| "split_from sep cur (c # cs) =
     (if c = sep then rev cur # split_from sep [] cs else split_from sep (c # cur) cs)"

definition py_split :: "nat \<Rightarrow> ustring \<Rightarrow> ustring list" where
  "py_split sep s = split_from sep [] s"

definition py_startswith :: "ustring \<Rightarrow> ustring \<Rightarrow> bool" where
  "py_startswith p s \<longleftrightarrow> take (length p) s = p"

text \<open>\<open>p in s\<close>: \<open>p\<close> occurs in \<open>s\<close> as a contiguous piece.\<close>

fun py_contains :: "ustring \<Rightarrow> ustring \<Rightarrow> bool" where
  "py_contains p [] \<longleftrightarrow> p = []"
| "py_contains p (c # cs) \<longleftrightarrow> take (length p) (c # cs) = p \<or> py_contains p cs"

section \<open>Small utilities\<close>

text \<open>
  \<open>sanitize_input\<close> on a string: caret to \<open>**\<close>, the division sign to \<open>/\<close>, then
  \<open>strip\<close>. (A value that is not a string is returned unchanged by the source; the
  narrators receive strings.)
\<close>

definition sanitize_input :: "ustring \<Rightarrow> ustring" where
  "sanitize_input text =
     py_strip (py_replace 247 (ustr ''/'') (py_replace 94 (ustr ''**'') text))"

definition is_ascii_letter :: "nat \<Rightarrow> bool" where
  "is_ascii_letter c \<longleftrightarrow> (65 \<le> c \<and> c \<le> 90) \<or> (97 \<le> c \<and> c \<le> 122)"

text \<open>
  \<open>re.findall(r"[A-Za-z]+", s)\<close>: the scanner skips to the next letter, matches
  greedily, and goes on behind the match.
\<close>

function findall_letters :: "ustring \<Rightarrow> ustring list" where
  "findall_letters s =
     (case dropWhile (\<lambda>c. \<not> is_ascii_letter c) s of
        [] \<Rightarrow> []
      | c # cs \<Rightarrow> (c # takeWhile is_ascii_letter cs)
                   # findall_letters (dropWhile is_ascii_letter cs))"
  by pat_completeness auto
termination
proof (relation "measure length")
  fix s :: ustring and c cs
  assume a: "dropWhile (\<lambda>c. \<not> is_ascii_letter c) s = c # cs"
  have "length (dropWhile is_ascii_letter cs) \<le> length cs"
    by (rule length_dropWhile_le)
  moreover have "length (c # cs) \<le> length s"
    using length_dropWhile_le [of "\<lambda>c. \<not> is_ascii_letter c" s] a by simp
  ultimately show "(dropWhile is_ascii_letter cs, s) \<in> measure length"
    by simp
qed simp

definition funcs :: "ustring list" where
  "funcs = [ustr ''sin'', ustr ''cos'', ustr ''tan'', ustr ''log'', ustr ''exp'',
            ustr ''sqrt'', ustr ''diff'', ustr ''integrate'', ustr ''solve'',
            ustr ''simplify'']"

text \<open>
  What \<open>sp.symbols\<close> returns: one \<open>Symbol\<close> for a single name, a tuple of symbols
  for several names separated by blanks. Names are runs of letters here, so joining
  them with blanks and splitting again gives the names back.
\<close>

datatype symbols = Symbol ustring | SymTuple "ustring list"

definition sp_symbols :: "ustring list \<Rightarrow> symbols" where
  "sp_symbols names = (case names of [n] \<Rightarrow> Symbol n | _ \<Rightarrow> SymTuple names)"

definition detect_names :: "ustring \<Rightarrow> ustring list" where
  "detect_names expr_str =
     filter (\<lambda>n. py_lower n \<notin> set funcs) (sort (remdups (findall_letters expr_str)))"

definition detect_symbols :: "ustring \<Rightarrow> symbols" where
  "detect_symbols expr_str =
     (let names = detect_names expr_str
      in if names = [] then sp_symbols [ustr ''x''] else sp_symbols names)"

text \<open>
  The symbol detector in the words of the spec, for comparison with
  \<open>detect_symbols\<close>. A maximal run of ASCII letters of \<open>s\<close> is a piece of \<open>s\<close>
  that is not empty, holds letters only, and has no letter just before it and none
  just behind it. The spec's detector takes these runs as a set, sorts them, leaves
  out the names whose lowercase form is a reserved function name, and returns the
  symbol \<open>x\<close> when no name is left.
\<close>

definition maximal_runs :: "ustring \<Rightarrow> ustring set" where
  "maximal_runs s =
     {t. \<exists>pre post. s = pre @ t @ post \<and> t \<noteq> [] \<and> list_all is_ascii_letter t \<and>
           (pre = [] \<or> \<not> is_ascii_letter (last pre)) \<and>
           (post = [] \<or> \<not> is_ascii_letter (hd post))}"

definition spec_detect_symbols :: "ustring \<Rightarrow> symbols" where
  "spec_detect_symbols s =
     (let names = sorted_list_of_set {t \<in> maximal_runs s. py_lower t \<notin> set funcs}
      in if names = [] then Symbol (ustr ''x'') else sp_symbols names)"

definition get_primary_symbol :: "symbols \<Rightarrow> ustring" where
  "get_primary_symbol syms =
     (case syms of
        SymTuple ns \<Rightarrow> (case ns of [] \<Rightarrow> ustr ''x'' | n # _ \<Rightarrow> n)
      | Symbol n \<Rightarrow> n)"

section \<open>The algebra engine\<close>

text \<open>
  The program calls SymPy for every step of algebra. SymPy is not part of the
  program, so the narrators take the engine as a parameter: a record with one field
  for each call the source makes. \<open>'e\<close> is the type of expressions, \<open>'p\<close> the type of
  \<open>Poly\<close> objects. A call that raises returns \<open>Inl\<close> with the exception; the
  renderers (\<open>sp.pretty\<close>, \<open>str\<close>) are taken to be total.
\<close>

datatype exn = Exn (exn_kind: ustring) (exn_str: ustring)

text \<open>The variable handed to \<open>sp.diff\<close> and \<open>sp.integrate\<close>: text cut out of the
  query, or the \<open>Symbol\<close> found by \<open>detect_symbols\<close>.\<close>

datatype var = VText ustring | VSym ustring

text \<open>\<open>p.degree()\<close> is a natural number, or minus infinity for the zero polynomial.\<close>

datatype degree = NegInfinity | Degree nat

datatype binop = Add | Sub | Mul | Div | Pow

record ('e, 'p) engine =
  sympify :: "ustring \<Rightarrow> exn + 'e"
  integer :: "int \<Rightarrow> 'e"
  binop :: "binop \<Rightarrow> 'e \<Rightarrow> 'e \<Rightarrow> exn + 'e"
  neg :: "'e \<Rightarrow> exn + 'e"
  equals_int :: "'e \<Rightarrow> int \<Rightarrow> bool"
  less_int :: "'e \<Rightarrow> int \<Rightarrow> exn + bool"
  simplify :: "'e \<Rightarrow> exn + 'e"
  expand :: "'e \<Rightarrow> exn + 'e"
  nsimplify :: "'e \<Rightarrow> exn + 'e"
  sp_sqrt :: "'e \<Rightarrow> exn + 'e"
  N :: "'e \<Rightarrow> exn + 'e"
  Poly :: "'e \<Rightarrow> symbols \<Rightarrow> exn + 'p"
  degree :: "'p \<Rightarrow> exn + degree"
  all_coeffs :: "'p \<Rightarrow> exn + 'e list"
  solve :: "'e \<times> 'e \<Rightarrow> symbols \<Rightarrow> exn + 'e list"
  diff :: "'e \<Rightarrow> var \<Rightarrow> exn + 'e"
  integrate :: "'e \<Rightarrow> var \<Rightarrow> exn + 'e"
  pretty :: "'e \<Rightarrow> ustring"
  pretty_eq :: "'e \<times> 'e \<Rightarrow> ustring"
  pretty_list :: "'e list \<Rightarrow> ustring"
  str :: "'e \<Rightarrow> ustring"

text \<open>Sequencing of calls that may raise: the first exception ends the computation.\<close>

definition rbind :: "exn + 'a \<Rightarrow> ('a \<Rightarrow> exn + 'b) \<Rightarrow> exn + 'b" where
  "rbind m f = (case m of Inl e \<Rightarrow> Inl e | Inr v \<Rightarrow> f v)"

text \<open>
  A narrator returns the pair \<open>(result, steps)\<close>. The result of
  \<open>solve_equation_steps\<close> is \<open>None\<close> or the list of solutions; the result of the
  other narrators is \<open>None\<close> or one expression. The pages show either.
\<close>

type_synonym 'r outcome = "'r option \<times> ustring list"

datatype 'e result = Value 'e | Solutions "'e list"

definition str_symbols :: "symbols \<Rightarrow> ustring" where
  "str_symbols syms =
     (case syms of
        Symbol n \<Rightarrow> n
      | SymTuple ns \<Rightarrow>
          ustr ''('' @ concat (map (\<lambda>n. n @ ustr '', '') (butlast ns)) @
          (if ns = [] then [] else last ns) @
          (if length ns = 1 then ustr '','' else []) @ ustr '')'')"

definition str_var :: "var \<Rightarrow> ustring" where
  "str_var v = (case v of VText t \<Rightarrow> t | VSym n \<Rightarrow> n)"

section \<open>Step generators\<close>

subsection \<open>solve_equation_steps\<close>

text \<open>The \<open>try\<close> around \<open>sp.Poly\<close> and \<open>p.degree()\<close>: any exception leaves
  \<open>degree = None\<close>.\<close>

definition poly_degree ::
  "('e, 'p) engine \<Rightarrow> 'e \<Rightarrow> symbols \<Rightarrow> ('p \<times> degree) option" where
  "poly_degree E poly syms =
     (case rbind (expand E poly) (\<lambda>ex.
           rbind (Poly E ex syms) (\<lambda>p.
           rbind (degree E p) (\<lambda>d. Inr (p, d)))) of
        Inl _ \<Rightarrow> None
      | Inr pd \<Rightarrow> Some pd)"

definition unpack_error :: "nat \<Rightarrow> nat \<Rightarrow> exn" where
  "unpack_error want got =
     Exn (ustr ''ValueError'')
       (if got < want then ustr ''not enough values to unpack''
        else ustr ''too many values to unpack'')"

definition zero_coefficient_step :: ustring where
  "zero_coefficient_step = ustr ''Coefficient a is 0 -> no or infinite solutions.''"

text \<open>The branch \<open>degree == 1\<close>.\<close>

definition solve_linear ::
  "('e, 'p) engine \<Rightarrow> 'e \<times> 'e \<Rightarrow> symbols \<Rightarrow> 'p \<Rightarrow> ustring list \<Rightarrow> exn + 'e list outcome" where
  "solve_linear E eq syms p steps =
     rbind (all_coeffs E p) (\<lambda>coeffs.
     case coeffs of
       [a, b] \<Rightarrow>
         (let steps1 = steps @
                [ustr ''Linear equation with a='' @ str E a @ ustr '', b='' @ str E b]
          in if equals_int E a 0 then
               (let steps2 = steps1 @ [zero_coefficient_step]
                in rbind (solve E eq syms) (\<lambda>sol. Inr (Some sol, steps2)))
             else
               rbind (neg E b) (\<lambda>nb.
               rbind (binop E Div nb a) (\<lambda>sol_val.
               rbind (nsimplify E sol_val) (\<lambda>shown.
               let steps2 = steps1 @
                     [ustr ''Solve: '' @ str_symbols syms @ ustr '' = -b/a = '' @ str E shown]
               in rbind (simplify E sol_val) (\<lambda>s.
                  Inr (Some [s], steps2))))))
     | _ \<Rightarrow> Inl (unpack_error 2 (length coeffs)))"

text \<open>One root of the quadratic formula: \<open>(-b + r) / (2*a)\<close> or \<open>(-b - r) / (2*a)\<close>.\<close>

definition quadratic_root ::
  "('e, 'p) engine \<Rightarrow> binop \<Rightarrow> 'e \<Rightarrow> 'e \<Rightarrow> 'e \<Rightarrow> exn + 'e" where
  "quadratic_root E pm a b sqrt_disc =
     rbind (neg E b) (\<lambda>nb.
     rbind (binop E pm nb sqrt_disc) (\<lambda>num.
     rbind (binop E Mul (integer E 2) a) (\<lambda>den.
     binop E Div num den)))"

text \<open>\<open>disc = b**2 - 4*a*c\<close>.\<close>

definition discriminant :: "('e, 'p) engine \<Rightarrow> 'e \<Rightarrow> 'e \<Rightarrow> 'e \<Rightarrow> exn + 'e" where
  "discriminant E a b c =
     rbind (binop E Pow b (integer E 2)) (\<lambda>b2.
     rbind (binop E Mul (integer E 4) a) (\<lambda>a4.
     rbind (binop E Mul a4 c) (\<lambda>ac4.
     binop E Sub b2 ac4)))"

text \<open>The branch \<open>degree == 2\<close>. The steps hold the characters capital delta
  (916), superscript two (178), rightwards arrow (8594), plus-minus (177) and square
  root (8730).\<close>

definition solve_quadratic ::
  "('e, 'p) engine \<Rightarrow> 'p \<Rightarrow> ustring list \<Rightarrow> exn + 'e list outcome" where
  "solve_quadratic E p steps =
     rbind (all_coeffs E p) (\<lambda>coeffs.
     case coeffs of
       [a, b, c] \<Rightarrow>
         (let steps1 = steps @
                [ustr ''Quadratic detected with a='' @ str E a @ ustr '', b='' @ str E b @
                 ustr '', c='' @ str E c]
          in rbind (discriminant E a b c) (\<lambda>disc.
             let steps2 = steps1 @
                   [ustr ''Discriminant '' @ [916] @ ustr '' = b'' @ [178] @
                    ustr '' - 4ac = '' @ pretty E disc]
             in rbind (less_int E disc 0) (\<lambda>negative.
                let steps3 =
                      (if negative
                       then steps2 @ [[916] @ ustr '' < 0 '' @ [8594] @ ustr '' complex roots'']
                       else steps2)
                in rbind (sp_sqrt E disc) (\<lambda>sqrt_disc.
                   rbind (quadratic_root E Add a b sqrt_disc) (\<lambda>x1.
                   rbind (quadratic_root E Sub a b sqrt_disc) (\<lambda>x2.
                   let steps4 = steps3 @
                         [ustr ''Roots: x = (-b '' @ [177] @ ustr '' '' @ [8730, 916] @
                          ustr '') / (2a) '' @ [8594] @ ustr '' '' @ pretty E x1 @
                          ustr '', '' @ pretty E x2]
                   in rbind (simplify E x1) (\<lambda>s1.
                      rbind (simplify E x2) (\<lambda>s2.
                      Inr (Some [s1, s2], steps4)))))))))
     | _ \<Rightarrow> Inl (unpack_error 3 (length coeffs)))"

text \<open>The last branch: the general solver, inside its own \<open>try\<close>.\<close>

definition solve_general ::
  "('e, 'p) engine \<Rightarrow> 'e \<times> 'e \<Rightarrow> symbols \<Rightarrow> ustring list \<Rightarrow> exn + 'e list outcome" where
  "solve_general E eq syms steps =
     (let steps1 = steps @ [ustr ''Using SymPy general solve'']
      in case solve E eq syms of
           Inr sol \<Rightarrow>
             Inr (Some sol, steps1 @ [ustr ''Solutions: '' @ pretty_list E sol])
         | Inl e \<Rightarrow> Inr (None, [ustr ''Could not solve: '' @ exn_str e]))"

text \<open>\<open>poly = sp.simplify(lhs_e - rhs_e)\<close>.\<close>

definition zero_form :: "('e, 'p) engine \<Rightarrow> 'e \<Rightarrow> 'e \<Rightarrow> exn + 'e" where
  "zero_form E lhs_e rhs_e = rbind (binop E Sub lhs_e rhs_e) (simplify E)"

text \<open>From \<open>eq = sp.Eq(lhs_e, rhs_e)\<close> to the end of the function.\<close>

definition solve_parsed ::
  "('e, 'p) engine \<Rightarrow> symbols \<Rightarrow> 'e \<Rightarrow> 'e \<Rightarrow> exn + 'e list outcome" where
  "solve_parsed E syms lhs_e rhs_e =
     (let eq = (lhs_e, rhs_e)
      in rbind (zero_form E lhs_e rhs_e) (\<lambda>poly.
         rbind (expand E poly) (\<lambda>expanded.
         let steps = [ustr ''Original equation: '' @ pretty_eq E eq,
                      ustr ''Simplify to one side: '' @ pretty E expanded @ ustr '' = 0'']
         in case poly_degree E poly syms of
              Some (p, Degree (Suc 0)) \<Rightarrow> solve_linear E eq syms p steps
            | Some (p, Degree (Suc (Suc 0))) \<Rightarrow> solve_quadratic E p steps
            | _ \<Rightarrow> solve_general E eq syms steps)))"

definition equals_sign_message :: ustring where
  "equals_sign_message = ustr ''Equation must contain exactly one '' @ [39, 61, 39] @ ustr '' sign.''"

definition parsing_error :: "exn \<Rightarrow> ustring" where
  "parsing_error e = ustr ''Parsing error: '' @ exn_str e"

definition solve_equation_steps :: "('e, 'p) engine \<Rightarrow> ustring \<Rightarrow> exn + 'e list outcome" where
  "solve_equation_steps E equation_str =
     (let normalized = sanitize_input equation_str;
          lhs_rhs = py_split 61 normalized
      in case lhs_rhs of
           [lhs, rhs] \<Rightarrow>
             (let syms = detect_symbols normalized
              in case rbind (sympify E lhs) (\<lambda>lhs_e.
                      rbind (sympify E rhs) (\<lambda>rhs_e. Inr (lhs_e, rhs_e))) of
                   Inl e \<Rightarrow> Inr (None, [parsing_error e])
                 | Inr (lhs_e, rhs_e) \<Rightarrow> solve_parsed E syms lhs_e rhs_e)
         | _ \<Rightarrow> Inr (None, [equals_sign_message]))"

subsection \<open>simplify_steps\<close>

definition simplify_steps :: "('e, 'p) engine \<Rightarrow> ustring \<Rightarrow> exn + 'e outcome" where
  "simplify_steps E expr_str =
     (let expr_str1 = sanitize_input expr_str
      in case sympify E expr_str1 of
           Inl ex \<Rightarrow> Inr (None, [parsing_error ex])
         | Inr e \<Rightarrow>
             (let steps = [ustr ''Original: '' @ pretty E e]
              in rbind (simplify E e) (\<lambda>simplified.
                 Inr (Some simplified, steps @ [ustr ''Simplified: '' @ pretty E simplified]))))"

subsection \<open>derivative_steps and integral_steps\<close>

text \<open>
  Both narrators open with the same lines, for \<open>diff(\<close> and for \<open>integrate(\<close>: when
  the lowercase text starts with the keyword \<open>kw\<close>, the text between the keyword and
  the last character is split at commas, the first part is the expression and the
  second part, stripped, the variable (\<open>None\<close> when there is no second part, whatever
  \<open>var\<close> was). \<open>s[n:-1]\<close> is \<open>butlast (drop n s)\<close>. The \<open>except\<close> branch is the
  case of an empty list of parts, which \<open>split\<close> never returns.
\<close>

definition unwrap_call :: "ustring \<Rightarrow> ustring \<Rightarrow> var option \<Rightarrow> ustring \<times> var option" where
  "unwrap_call kw expr_str var =
     (if py_startswith kw (py_lower (py_strip expr_str)) then
        (let inner = butlast (drop (length kw) (py_strip expr_str));
             parts = py_split 44 inner
         in case parts of
              [] \<Rightarrow> (expr_str, var)
            | expr_part # rest \<Rightarrow>
                (expr_part,
                 case rest of [] \<Rightarrow> None | v # _ \<Rightarrow> Some (VText (py_strip v))))
      else (expr_str, var))"

definition choose_var :: "ustring \<Rightarrow> var option \<Rightarrow> var" where
  "choose_var expr_part var =
     (case var of
        None \<Rightarrow> VSym (get_primary_symbol (detect_symbols expr_part))
      | Some v \<Rightarrow> v)"

definition derivative_steps ::
  "('e, 'p) engine \<Rightarrow> ustring \<Rightarrow> var option \<Rightarrow> exn + 'e outcome" where
  "derivative_steps E expr_str var0 =
     (let expr_str1 = sanitize_input expr_str;
          (expr_part, var1) = unwrap_call (ustr ''diff('') expr_str1 var0;
          var = choose_var expr_part var1
      in case sympify E expr_part of
           Inl ex \<Rightarrow> Inr (None, [parsing_error ex])
         | Inr f \<Rightarrow>
             (let steps = [ustr ''Function: '' @ pretty E f,
                           ustr ''Differentiate w.r.t '' @ str_var var]
              in rbind (diff E f var) (\<lambda>d.
                 Inr (Some d, steps @ [ustr ''Result: '' @ pretty E d]))))"

definition integral_steps ::
  "('e, 'p) engine \<Rightarrow> ustring \<Rightarrow> var option \<Rightarrow> exn + 'e outcome" where
  "integral_steps E expr_str var0 =
     (let expr_str1 = sanitize_input expr_str;
          (expr_part, var1) = unwrap_call (ustr ''integrate('') expr_str1 var0;
          var = choose_var expr_part var1
      in case sympify E expr_part of
           Inl ex \<Rightarrow> Inr (None, [parsing_error ex])
         | Inr f \<Rightarrow>
             (let steps = [ustr ''Integrand: '' @ pretty E f,
                           ustr ''Integrate w.r.t '' @ str_var var]
              in case integrate E f var of
                   Inr I \<Rightarrow> Inr (Some I, steps @ [ustr ''Result: '' @ pretty E I @ ustr '' + C''])
                 | Inl e \<Rightarrow> Inr (None, [ustr ''Could not integrate: '' @ exn_str e])))"

section \<open>The pages\<close>

text \<open>
  A request is a \<open>GET\<close>, or a \<open>POST\<close> with the fields \<open>query\<close> and \<open>kind\<close>, each of
  which may be missing. The page gets \<open>(result, steps, query)\<close>.
\<close>

datatype request = GET | POST "ustring option" "ustring option"

text \<open>\<open>form.get(key, fallback)\<close> on a field that may be missing.\<close>

definition form_get :: "ustring option \<Rightarrow> ustring \<Rightarrow> ustring" where
  "form_get v fallback = (case v of None \<Rightarrow> fallback | Some s \<Rightarrow> s)"

definition as_value :: "exn + 'e outcome \<Rightarrow> exn + 'e result outcome" where
  "as_value r = rbind r (\<lambda>(out, steps). Inr (map_option Value out, steps))"

definition as_solutions :: "exn + 'e list outcome \<Rightarrow> exn + 'e result outcome" where
  "as_solutions r = rbind r (\<lambda>(sol, steps). Inr (map_option Solutions sol, steps))"

text \<open>The last \<open>else\<close> of the automatic mode: evaluate, and on any exception
  simplify.\<close>

definition evaluate_or_simplify ::
  "('e, 'p) engine \<Rightarrow> ustring \<Rightarrow> exn + 'e result outcome" where
  "evaluate_or_simplify E query =
     (case rbind (sympify E query) (\<lambda>val.
           rbind (N E val) (\<lambda>result. Inr (val, result))) of
        Inr (val, result) \<Rightarrow>
          Inr (Some (Value result),
               [ustr ''Parsed value: '' @ pretty E val,
                ustr ''Numeric evaluation: '' @ str E result])
      | Inl _ \<Rightarrow> as_value (simplify_steps E query))"

definition auto_detect :: "('e, 'p) engine \<Rightarrow> ustring \<Rightarrow> exn + 'e result outcome" where
  "auto_detect E query =
     (let qlow = py_lower query
      in if py_contains (ustr ''='') query then as_solutions (solve_equation_steps E query)
         else if py_startswith (ustr ''diff'') qlow \<or> py_startswith (ustr ''d/d'') qlow \<or>
                 py_contains (ustr ''d/d'') qlow
           then as_value (derivative_steps E query None)
         else if py_startswith (ustr ''integrate'') qlow \<or>
                 py_startswith (ustr ''int('') qlow \<or> py_contains (ustr ''integrate'') qlow
           then as_value (integral_steps E query None)
         else if py_startswith (ustr ''simplify'') qlow \<or> py_contains (ustr ''/'') query \<or>
                 py_contains (ustr ''simplify'') qlow
           then as_value (simplify_steps E query)
         else evaluate_or_simplify E query)"

text \<open>The five values that the pages compare \<open>kind\<close> with.\<close>

definition modes :: "ustring list" where
  "modes = [ustr ''auto'', ustr ''solve'', ustr ''diff'', ustr ''integrate'', ustr ''simplify'']"

text \<open>The body of the \<open>try\<close> in \<open>index\<close>, from the values \<open>result = None\<close> and
  \<open>steps = []\<close> set before it. A \<open>kind\<close> that matches no branch leaves them as
  they are.\<close>

definition dispatch ::
  "('e, 'p) engine \<Rightarrow> ustring \<Rightarrow> ustring \<Rightarrow> exn + 'e result outcome" where
  "dispatch E kind query =
     (if kind = ustr ''auto'' then auto_detect E query
      else if kind = ustr ''solve'' then as_solutions (solve_equation_steps E query)
      else if kind = ustr ''diff'' then as_value (derivative_steps E query None)
      else if kind = ustr ''integrate'' then as_value (integral_steps E query None)
      else if kind = ustr ''simplify'' then as_value (simplify_steps E query)
      else Inr (None, []))"

definition index ::
  "('e, 'p) engine \<Rightarrow> request \<Rightarrow> 'e result option \<times> ustring list \<times> ustring" where
  "index E req =
     (case req of
        GET \<Rightarrow> (None, [], [])
      | POST form_query form_kind \<Rightarrow>
          (let raw_query = form_get form_query [];
               query = sanitize_input raw_query;
               kind = form_get form_kind (ustr ''auto'')
           in case dispatch E kind query of
                Inr (result, steps) \<Rightarrow> (result, steps, query)
              | Inl e \<Rightarrow> (None, [ustr ''Error processing: '' @ exn_str e], query)))"

text \<open>
  \<open>/api/solve\<close> answers with JSON: an error with its status, or the result and the
  steps. The result is \<open>null\<close>, a string, or a list of strings.
\<close>

datatype jresult = JNull | JStr ustring | JList "ustring list"

datatype response = ErrorResponse ustring nat | ResultResponse jresult "ustring list"

text \<open>\<open>[str(s) for s in sol] if sol else None\<close>: \<open>None\<close> and the empty list are
  both falsy.\<close>

definition json_solutions :: "('e, 'p) engine \<Rightarrow> 'e list option \<Rightarrow> jresult" where
  "json_solutions E sol =
     (case sol of
        None \<Rightarrow> JNull
      | Some xs \<Rightarrow> if xs = [] then JNull else JList (map (str E) xs))"

text \<open>\<open>str(out)\<close>, which is the text \<open>None\<close> when there is no result.\<close>

definition json_value :: "('e, 'p) engine \<Rightarrow> 'e option \<Rightarrow> jresult" where
  "json_value E out = (case out of None \<Rightarrow> JStr (ustr ''None'') | Some v \<Rightarrow> JStr (str E v))"

definition api_evaluate :: "('e, 'p) engine \<Rightarrow> ustring \<Rightarrow> exn + response" where
  "api_evaluate E query =
     rbind (sympify E query) (\<lambda>val.
     rbind (N E val) (\<lambda>n.
     Inr (ResultResponse (JStr (str E n)) [ustr ''Parsed: '' @ str E val])))"

definition api_body :: "('e, 'p) engine \<Rightarrow> ustring \<Rightarrow> ustring \<Rightarrow> exn + response" where
  "api_body E kind query =
     (if py_contains (ustr ''='') query \<and> kind \<in> set [ustr ''auto'', ustr ''solve''] then
        rbind (solve_equation_steps E query) (\<lambda>(sol, steps).
        Inr (ResultResponse (json_solutions E sol) steps))
      else
        (let qlow = py_lower query
         in if kind \<in> set [ustr ''auto'', ustr ''diff''] \<and>
               (py_startswith (ustr ''diff'') qlow \<or> py_contains (ustr ''d/d'') qlow) then
              rbind (derivative_steps E query None) (\<lambda>(out, steps).
              Inr (ResultResponse (json_value E out) steps))
            else if kind \<in> set [ustr ''auto'', ustr ''integrate''] \<and>
               (py_startswith (ustr ''integrate'') qlow \<or> py_startswith (ustr ''int('') qlow \<or>
                py_contains (ustr ''integrate'') qlow) then
              rbind (integral_steps E query None) (\<lambda>(out, steps).
              Inr (ResultResponse (json_value E out) steps))
            else if kind \<in> set [ustr ''auto'', ustr ''simplify''] \<and>
               (py_startswith (ustr ''simplify'') qlow \<or> py_contains (ustr ''simplify'') qlow \<or>
                py_contains (ustr ''/'') query) then
              rbind (simplify_steps E query) (\<lambda>(out, steps).
              Inr (ResultResponse (json_value E out) steps))
            else api_evaluate E query))"

definition api_solve ::
  "('e, 'p) engine \<Rightarrow> ustring option \<Rightarrow> ustring option \<Rightarrow> response" where
  "api_solve E data_query data_kind =
     (let raw_query = form_get data_query [];
          query = sanitize_input raw_query;
          kind = form_get data_kind (ustr ''auto'')
      in if query = [] then ErrorResponse (ustr ''No query provided'') 400
         else case api_body E kind query of
                Inr r \<Rightarrow> r
              | Inl e \<Rightarrow> ErrorResponse (exn_str e) 500)"

section \<open>A polynomial engine\<close>

text \<open>
  Modelled from the spec: the algebra engine itself (SymPy) is an external library
  and no part of the source. Section 6 of the spec gives its contract: parse,
  simplify, expand, polynomial coefficients, solve, differentiate, integrate, render.
  \<open>mini_engine\<close> is that contract on one fragment, polynomials with rational
  coefficients in several generators, kept in a normal form (a sorted list of
  monomials with their coefficients, none of them zero), so that \<open>simplify\<close> and
  \<open>expand\<close> have nothing left to do. It serves where a claim speaks about what the
  engine computes, and as the concrete engine of the examples.

  A generator is a variable of one small letter or an atom, an expression that is no
  polynomial and is kept whole under its name: \<open>sin(v)\<close> and \<open>cos(v)\<close> of a
  variable, the power \<open>v**w\<close> of two variables, the imaginary unit \<open>I\<close> and the
  root \<open>sqrt(n)\<close> of a squarefree number, and the unevaluated integral
  \<open>Integral(v**v, v)\<close>.

  The fragment of the parser: integer literals, variables, \<open>sin(v)\<close>, \<open>cos(v)\<close>,
  \<open>+\<close>, \<open>-\<close>, \<open>*\<close>, \<open>**\<close> with a literal exponent or between two variables,
  \<open>/\<close> by a number, parentheses, blanks; Python's precedences (unary minus below
  \<open>**\<close> and above \<open>*\<close>, \<open>**\<close> to the right). Text outside the fragment is
  rejected as a parse error, and an operation whose value the engine cannot
  represent raises. As in SymPy: \<open>Poly\<close> raises when the expression is no polynomial
  in the given symbols, \<open>degree\<close> is the degree in the first generator, \<open>all_coeffs\<close>
  raises for a polynomial in several generators; the square root of a number that
  is no square is a multiple of \<open>sqrt(n)\<close>, of \<open>I\<close> for a negative number; the
  general solver returns every root once, the lower one first, and raises for an
  equation it has no method for, as for one that is no polynomial in the symbol; \<open>diff\<close> takes the variable as a symbol or
  as text and raises for anything else, \<open>integrate\<close> raises for every variable given
  as text, and for an integrand without a closed form (\<open>x**x\<close>) it does not raise
  but returns the unevaluated integral; comparing a non-constant expression with a
  number has no truth value. Numbers are rendered as SymPy renders them; other
  expressions are rendered as a plain sum of terms.
\<close>

type_synonym monomial = "(ustring \<times> nat) list"
type_synonym mpoly = "(monomial \<times> rat) list"

fun mono_mul :: "monomial \<Rightarrow> monomial \<Rightarrow> monomial" where
  "mono_mul [] n = n"
| "mono_mul m [] = m"
| "mono_mul ((x, i) # m) ((y, j) # n) =
     (if x = y then (x, i + j) # mono_mul m n
      else if x < y then (x, i) # mono_mul m ((y, j) # n)
      else (y, j) # mono_mul ((x, i) # m) n)"

fun add_term :: "monomial \<times> rat \<Rightarrow> mpoly \<Rightarrow> mpoly" where
  "add_term (m, c) [] = (if c = 0 then [] else [(m, c)])"
| "add_term (m, c) ((n, d) # p) =
     (if c = 0 then (n, d) # p
      else if m = n then (if c + d = 0 then p else (n, c + d) # p)
      else if m < n then (m, c) # (n, d) # p
      else (n, d) # add_term (m, c) p)"

definition norm_mono :: "monomial \<Rightarrow> monomial" where
  "norm_mono m = foldr (\<lambda>(x, k) acc. if k = 0 then acc else mono_mul [(x, k)] acc) m []"

definition normal :: "mpoly \<Rightarrow> mpoly" where
  "normal p = foldr (\<lambda>(m, c). add_term (norm_mono m, c)) p []"

definition const :: "rat \<Rightarrow> mpoly" where
  "const c = (if c = 0 then [] else [([], c)])"

definition pvar :: "ustring \<Rightarrow> mpoly" where
  "pvar x = [([(x, 1)], 1)]"

definition padd :: "mpoly \<Rightarrow> mpoly \<Rightarrow> mpoly" where
  "padd p q = normal (p @ q)"

definition pscale :: "rat \<Rightarrow> mpoly \<Rightarrow> mpoly" where
  "pscale k p = normal (map (\<lambda>(m, c). (m, k * c)) p)"

definition pmul :: "mpoly \<Rightarrow> mpoly \<Rightarrow> mpoly" where
  "pmul p q = normal (concat (map (\<lambda>(m, c). map (\<lambda>(n, d). (mono_mul m n, c * d)) q) p))"

fun ppow :: "mpoly \<Rightarrow> nat \<Rightarrow> mpoly" where
  "ppow p 0 = const 1"
| "ppow p (Suc n) = pmul p (ppow p n)"

definition as_const :: "mpoly \<Rightarrow> rat option" where
  "as_const p =
     (case p of
        [] \<Rightarrow> Some 0
      | [(m, c)] \<Rightarrow> if m = [] then Some c else None
      | _ \<Rightarrow> None)"

text \<open>The name of the variable when the expression is one variable.\<close>

definition as_var :: "mpoly \<Rightarrow> ustring option" where
  "as_var p =
     (case p of
        [([(n, k)], c)] \<Rightarrow> if k = 1 \<and> c = 1 \<and> length n = 1 then Some n else None
      | _ \<Rightarrow> None)"

definition exponent :: "ustring \<Rightarrow> monomial \<Rightarrow> nat" where
  "exponent x m = (case map_of m x of None \<Rightarrow> 0 | Some k \<Rightarrow> k)"

definition coeff :: "mpoly \<Rightarrow> monomial \<Rightarrow> rat" where
  "coeff p m = (case map_of p m of None \<Rightarrow> 0 | Some c \<Rightarrow> c)"

definition power_of :: "ustring \<Rightarrow> nat \<Rightarrow> monomial" where
  "power_of x k = (if k = 0 then [] else [(x, k)])"

text \<open>
  A generator depends on the variable \<open>x\<close> when \<open>x\<close> is one of the names in it. The
  derivative of a generator: of \<open>x\<close> itself, of a generator without \<open>x\<close>, of
  \<open>sin(x)\<close> and of \<open>cos(x)\<close>; the derivative of another atom is outside the
  fragment.
\<close>

definition depends_on :: "ustring \<Rightarrow> ustring \<Rightarrow> bool" where
  "depends_on g x \<longleftrightarrow> x \<in> set (findall_letters g)"

definition sin_of :: "ustring \<Rightarrow> ustring" where
  "sin_of x = ustr ''sin('' @ x @ ustr '')''"

definition cos_of :: "ustring \<Rightarrow> ustring" where
  "cos_of x = ustr ''cos('' @ x @ ustr '')''"

definition atom_diff :: "ustring \<Rightarrow> ustring \<Rightarrow> mpoly option" where
  "atom_diff g x =
     (if g = x then Some (const 1)
      else if \<not> depends_on g x then Some (const 0)
      else if g = sin_of x then Some (pvar (cos_of x))
      else if g = cos_of x then Some (pscale (- 1) (pvar (sin_of x)))
      else None)"

text \<open>The product rule on one monomial; \<open>pre\<close> holds the generators already passed.\<close>

fun diff_mono :: "ustring \<Rightarrow> monomial \<Rightarrow> monomial \<Rightarrow> mpoly option" where
  "diff_mono x pre [] = Some []"
| "diff_mono x pre ((g, k) # rest) =
     (case (atom_diff g x, diff_mono x (pre @ [(g, k)]) rest) of
        (Some d, Some q) \<Rightarrow>
          Some (padd (pmul [(pre @ power_of g (k - 1) @ rest, of_nat k)] d) q)
      | _ \<Rightarrow> None)"

fun pdiff :: "ustring \<Rightarrow> mpoly \<Rightarrow> mpoly option" where
  "pdiff x [] = Some []"
| "pdiff x ((m, c) # p) =
     (case (diff_mono x [] m, pdiff x p) of
        (Some d, Some q) \<Rightarrow> Some (padd (pscale c d) q)
      | _ \<Rightarrow> None)"

text \<open>
  The antiderivative of one term: the power rule when no atom of the term depends
  on \<open>x\<close>; \<open>-cos(x)\<close> and \<open>sin(x)\<close> for \<open>sin(x)\<close> and \<open>cos(x)\<close>; no closed form
  is known for \<open>x**x\<close>, and the result is the unevaluated integral; every other term
  is outside the fragment.
\<close>

definition power_atom :: "ustring \<Rightarrow> ustring \<Rightarrow> ustring" where
  "power_atom v w = v @ ustr ''**'' @ w"

definition unevaluated_integral :: "ustring \<Rightarrow> ustring \<Rightarrow> ustring" where
  "unevaluated_integral g x = ustr ''Integral('' @ g @ ustr '', '' @ x @ ustr '')''"

definition int_term :: "ustring \<Rightarrow> monomial \<times> rat \<Rightarrow> mpoly option" where
  "int_term x t =
     (case t of
        (m, c) \<Rightarrow>
          if list_all (\<lambda>(g, k). g = x \<or> \<not> depends_on g x) m
          then Some [(mono_mul [(x, 1)] m, c / of_nat (exponent x m + 1))]
          else if m = [(sin_of x, 1)] then Some [([(cos_of x, 1)], - c)]
          else if m = [(cos_of x, 1)] then Some [([(sin_of x, 1)], c)]
          else if m = [(power_atom x x, 1)]
          then Some [([(unevaluated_integral (power_atom x x) x, 1)], c)]
          else None)"

fun pint :: "ustring \<Rightarrow> mpoly \<Rightarrow> mpoly option" where
  "pint x [] = Some []"
| "pint x (t # p) =
     (case (int_term x t, pint x p) of
        (Some i, Some q) \<Rightarrow> Some (padd i q)
      | _ \<Rightarrow> None)"

datatype token = TNum nat | TName ustring | TPlus | TMinus | TStar | TSlash | TPow
  | TLParen | TRParen

datatype lexstate = Idle | InNum nat | AfterName

definition flush :: "lexstate \<Rightarrow> token list" where
  "flush st = (case st of InNum n \<Rightarrow> [TNum n] | _ \<Rightarrow> [])"

definition sign_token :: "nat \<Rightarrow> token option" where
  "sign_token c =
     (if c = 43 then Some TPlus else if c = 45 then Some TMinus
      else if c = 47 then Some TSlash else if c = 40 then Some TLParen
      else if c = 41 then Some TRParen else None)"

text \<open>The six characters of \<open>sin(v)\<close> or \<open>cos(v)\<close>, \<open>v\<close> a small letter.\<close>

definition function_atom :: "ustring \<Rightarrow> bool" where
  "function_atom w \<longleftrightarrow>
     length w = 6 \<and> (take 4 w = ustr ''sin('' \<or> take 4 w = ustr ''cos('') \<and>
     97 \<le> w ! 4 \<and> w ! 4 \<le> 122 \<and> w ! 5 = 41"

fun lex_from :: "lexstate \<Rightarrow> ustring \<Rightarrow> token list option" where
  "lex_from st [] = Some (flush st)"
| "lex_from st (c # cs) =
     (if 48 \<le> c \<and> c \<le> 57 then
        (case st of
           AfterName \<Rightarrow> None
         | InNum n \<Rightarrow> lex_from (InNum (10 * n + (c - 48))) cs
         | Idle \<Rightarrow> lex_from (InNum (c - 48)) cs)
      else if 97 \<le> c \<and> c \<le> 122 then
        (case st of
           Idle \<Rightarrow>
             (case cs of
                c1 # c2 # c3 # c4 # c5 # rest \<Rightarrow>
                  if function_atom [c, c1, c2, c3, c4, c5]
                  then map_option (\<lambda>ts. TName [c, c1, c2, c3, c4, c5] # ts)
                         (lex_from AfterName rest)
                  else map_option (\<lambda>ts. TName [c] # ts) (lex_from AfterName cs)
              | _ \<Rightarrow> map_option (\<lambda>ts. TName [c] # ts) (lex_from AfterName cs))
         | _ \<Rightarrow> None)
      else if c = 32 \<or> c = 9 then map_option (\<lambda>ts. flush st @ ts) (lex_from Idle cs)
      else if c = 42 then
        (case cs of
           [] \<Rightarrow> Some (flush st @ [TStar])
         | d # ds \<Rightarrow>
             if d = 42 then map_option (\<lambda>ts. flush st @ TPow # ts) (lex_from Idle ds)
             else map_option (\<lambda>ts. flush st @ TStar # ts) (lex_from Idle cs))
      else
        (case sign_token c of
           None \<Rightarrow> None
         | Some t \<Rightarrow> map_option (\<lambda>ts. flush st @ t # ts) (lex_from Idle cs)))"

datatype pending = OAdd | OSub | OMul | ODiv | OPow | ONeg | OPos | OParen

fun prec :: "pending \<Rightarrow> nat" where
  "prec OParen = 0"
| "prec OAdd = 1"
| "prec OSub = 1"
| "prec OMul = 2"
| "prec ODiv = 2"
| "prec ONeg = 3"
| "prec OPos = 3"
| "prec OPow = 4"

definition nat_of_rat :: "rat \<Rightarrow> nat option" where
  "nat_of_rat c = (case quotient_of c of (p, q) \<Rightarrow> if q = 1 \<and> 0 \<le> p then Some (nat p) else None)"

fun apply_pending :: "pending \<Rightarrow> mpoly list \<Rightarrow> mpoly list option" where
  "apply_pending ONeg (v # vs) = Some (pscale (- 1) v # vs)"
| "apply_pending OPos (v # vs) = Some (v # vs)"
| "apply_pending OAdd (b # a # vs) = Some (padd a b # vs)"
| "apply_pending OSub (b # a # vs) = Some (padd a (pscale (- 1) b) # vs)"
| "apply_pending OMul (b # a # vs) = Some (pmul a b # vs)"
| "apply_pending ODiv (b # a # vs) =
     (case as_const b of
        None \<Rightarrow> None
      | Some c \<Rightarrow> if c = 0 then None else Some (pscale (1 / c) a # vs))"
| "apply_pending OPow (b # a # vs) =
     (case as_const b of
        None \<Rightarrow>
          (case (as_var a, as_var b) of
             (Some v, Some w) \<Rightarrow> Some (pvar (power_atom v w) # vs)
           | _ \<Rightarrow> None)
      | Some c \<Rightarrow> (case nat_of_rat c of None \<Rightarrow> None | Some n \<Rightarrow> Some (ppow a n # vs)))"
| "apply_pending _ _ = None"

fun unwind :: "nat \<Rightarrow> pending list \<Rightarrow> mpoly list \<Rightarrow> (pending list \<times> mpoly list) option" where
  "unwind lvl [] vs = Some ([], vs)"
| "unwind lvl (p # ps) vs =
     (if lvl \<le> prec p then
        (case apply_pending p vs of None \<Rightarrow> None | Some vs' \<Rightarrow> unwind lvl ps vs')
      else Some (p # ps, vs))"

fun parse_tokens :: "token list \<Rightarrow> bool \<Rightarrow> pending list \<Rightarrow> mpoly list \<Rightarrow> mpoly option"
  and parse_binary :: "pending \<Rightarrow> token list \<Rightarrow> bool \<Rightarrow> pending list \<Rightarrow> mpoly list \<Rightarrow> mpoly option"
where
  "parse_tokens [] operand ps vs =
     (if operand then None
      else case unwind 1 ps vs of Some ([], [v]) \<Rightarrow> Some v | _ \<Rightarrow> None)"
| "parse_tokens (TNum n # ts) operand ps vs =
     (if operand then parse_tokens ts False ps (const (of_nat n) # vs) else None)"
| "parse_tokens (TName x # ts) operand ps vs =
     (if operand then parse_tokens ts False ps (pvar x # vs) else None)"
| "parse_tokens (TLParen # ts) operand ps vs =
     (if operand then parse_tokens ts True (OParen # ps) vs else None)"
| "parse_tokens (TRParen # ts) operand ps vs =
     (if operand then None
      else case unwind 1 ps vs of
             Some (OParen # ps', vs') \<Rightarrow> parse_tokens ts False ps' vs'
           | _ \<Rightarrow> None)"
| "parse_tokens (TPlus # ts) operand ps vs =
     (if operand then parse_tokens ts True (OPos # ps) vs else parse_binary OAdd ts operand ps vs)"
| "parse_tokens (TMinus # ts) operand ps vs =
     (if operand then parse_tokens ts True (ONeg # ps) vs else parse_binary OSub ts operand ps vs)"
| "parse_tokens (TStar # ts) operand ps vs = parse_binary OMul ts operand ps vs"
| "parse_tokens (TSlash # ts) operand ps vs = parse_binary ODiv ts operand ps vs"
| "parse_tokens (TPow # ts) operand ps vs =
     (if operand then None else parse_tokens ts True (OPow # ps) vs)"
| "parse_binary p ts operand ps vs =
     (if operand then None
      else case unwind (prec p) ps vs of
             None \<Rightarrow> None
           | Some (ps', vs') \<Rightarrow> parse_tokens ts True (p # ps') vs')"


definition syntax_error :: exn where
  "syntax_error = Exn (ustr ''SympifyError'') (ustr ''could not parse the expression'')"

definition unsupported :: exn where
  "unsupported = Exn (ustr ''NotImplementedError'') (ustr ''outside the polynomial fragment'')"

definition mini_sympify :: "ustring \<Rightarrow> exn + mpoly" where
  "mini_sympify s =
     (case lex_from Idle s of
        None \<Rightarrow> Inl syntax_error
      | Some ts \<Rightarrow>
          (case parse_tokens ts True [] [] of
             None \<Rightarrow> Inl syntax_error
           | Some e \<Rightarrow> Inr e))"

definition mini_binop :: "binop \<Rightarrow> mpoly \<Rightarrow> mpoly \<Rightarrow> exn + mpoly" where
  "mini_binop f a b =
     (let p = (case f of Add \<Rightarrow> OAdd | Sub \<Rightarrow> OSub | Mul \<Rightarrow> OMul | Div \<Rightarrow> ODiv | Pow \<Rightarrow> OPow)
      in case apply_pending p [b, a] of
           Some [v] \<Rightarrow> Inr v
         | _ \<Rightarrow> Inl unsupported)"

definition mini_less_int :: "mpoly \<Rightarrow> int \<Rightarrow> exn + bool" where
  "mini_less_int a i =
     (case as_const a of
        Some c \<Rightarrow> Inr (c < of_int i)
      | None \<Rightarrow>
          Inl (Exn (ustr ''TypeError'') (ustr ''cannot determine truth value of Relational'')))"

function nat_digits :: "nat \<Rightarrow> ustring" where
  "nat_digits n = (if n < 10 then [48 + n] else nat_digits (n div 10) @ [48 + n mod 10])"
  by pat_completeness auto
termination
  by (relation "measure id") auto

definition nat_sqrt :: "nat \<Rightarrow> nat option" where
  "nat_sqrt n = find (\<lambda>k. k * k = n) [0..<Suc n]"

definition rat_sqrt :: "rat \<Rightarrow> rat option" where
  "rat_sqrt c =
     (case quotient_of c of
        (p, q) \<Rightarrow>
          if p < 0 then None
          else (case (nat_sqrt (nat p), nat_sqrt (nat q)) of
                  (Some a, Some b) \<Rightarrow> Some (of_nat a / of_nat b)
                | _ \<Rightarrow> None))"

text \<open>
  The square root of a rational number \<open>p/q\<close>: the rational root when there is one;
  otherwise \<open>sqrt(p*q) / q\<close>, where the largest square \<open>k*k\<close> dividing \<open>|p*q|\<close> is
  taken out of the root, \<open>sqrt(n)\<close> stays for the squarefree rest \<open>n\<close> when it is not
  1, and a negative number has the factor \<open>I\<close>.
\<close>

definition square_part :: "nat \<Rightarrow> nat" where
  "square_part n =
     (case find (\<lambda>k. n mod (k * k) = 0) (rev [1..<Suc n]) of Some k \<Rightarrow> k | None \<Rightarrow> 1)"

definition imaginary_unit :: ustring where
  "imaginary_unit = ustr ''I''"

definition root_atom :: "nat \<Rightarrow> ustring" where
  "root_atom n = ustr ''sqrt('' @ nat_digits n @ ustr '')''"

definition surd :: "rat \<Rightarrow> mpoly" where
  "surd d =
     (case rat_sqrt d of
        Some r \<Rightarrow> const r
      | None \<Rightarrow>
          (case quotient_of d of
             (p, q) \<Rightarrow>
               (let m = nat (\<bar>p\<bar> * q); k = square_part m; n = m div (k * k)
                in pscale (of_nat k / of_int q)
                     (pmul (if p < 0 then pvar imaginary_unit else const 1)
                        (if n = 1 then const 1 else pvar (root_atom n))))))"

definition mini_sqrt :: "mpoly \<Rightarrow> exn + mpoly" where
  "mini_sqrt a =
     (case as_const a of
        None \<Rightarrow> Inl unsupported
      | Some c \<Rightarrow> Inr (surd c))"

type_synonym mini_poly = "ustring list \<times> mpoly"

definition gens_of :: "symbols \<Rightarrow> ustring list" where
  "gens_of syms = (case syms of Symbol n \<Rightarrow> [n] | SymTuple ns \<Rightarrow> ns)"

definition mini_Poly :: "mpoly \<Rightarrow> symbols \<Rightarrow> exn + mini_poly" where
  "mini_Poly e syms =
     (let gens = gens_of syms; rep = normal e
      in if gens \<noteq> [] \<and> list_all (\<lambda>(m, c). list_all (\<lambda>(x, k). x \<in> set gens) m) rep
         then Inr (gens, rep)
         else Inl (Exn (ustr ''PolynomialError'') (ustr ''generators do not cover the expression'')))"

definition degree_in :: "ustring \<Rightarrow> mpoly \<Rightarrow> degree" where
  "degree_in x rep =
     (if rep = [] then NegInfinity
      else Degree (foldr (\<lambda>(m, c) d. max (exponent x m) d) rep 0))"

definition mini_degree :: "mini_poly \<Rightarrow> exn + degree" where
  "mini_degree p =
     (case p of
        (x # _, rep) \<Rightarrow> Inr (degree_in x rep)
      | ([], _) \<Rightarrow> Inl (Exn (ustr ''PolynomialError'') (ustr ''no generators'')))"

definition mini_all_coeffs :: "mini_poly \<Rightarrow> exn + mpoly list" where
  "mini_all_coeffs p =
     (case p of
        ([x], rep) \<Rightarrow>
          (case degree_in x rep of
             NegInfinity \<Rightarrow> Inr [const 0]
           | Degree d \<Rightarrow> Inr (map (\<lambda>k. const (coeff rep (power_of x k))) (rev [0..<Suc d])))
      | _ \<Rightarrow>
          Inl (Exn (ustr ''PolynomialError'') (ustr ''multivariate polynomials not supported'')))"

text \<open>
  The general solver, for an equation in one symbol whose zero form \<open>lhs - rhs\<close>
  is a polynomial in it: no root for a constant, the root \<open>-b/a\<close> for the degree
  1, for the degree 2 the roots \<open>(-b - sqrt(D)) / (2*a)\<close> and
  \<open>(-b + sqrt(D)) / (2*a)\<close> with \<open>D = b*b - 4*a*c\<close>, the lower one first, a
  double root once, and the root 0 for a higher power \<open>a*x**n\<close>. Everything else
  is outside the fragment; for several symbols only the constant equation is
  inside.
\<close>

text \<open>The value at \<open>r\<close> of the polynomial with the coefficients \<open>cs\<close>, the highest
  first.\<close>

definition poly_value :: "rat list \<Rightarrow> rat \<Rightarrow> rat" where
  "poly_value cs r = foldl (\<lambda>acc c. acc * r + c) 0 cs"

definition number_of :: "mpoly \<Rightarrow> rat" where
  "number_of e = (case as_const e of Some c \<Rightarrow> c | None \<Rightarrow> 0)"

definition formula_root :: "rat \<Rightarrow> rat \<Rightarrow> mpoly \<Rightarrow> mpoly" where
  "formula_root a b s = pscale (1 / (2 * a)) (padd (const (- b)) s)"

definition quadratic_solutions :: "rat \<Rightarrow> rat \<Rightarrow> rat \<Rightarrow> mpoly list" where
  "quadratic_solutions a b c =
     (let s = surd (b * b - 4 * a * c);
          lo = formula_root a b (pscale (- 1) s);
          hi = formula_root a b s
      in remdups (if 0 < a then [lo, hi] else [hi, lo]))"

definition solve_poly :: "degree \<Rightarrow> mpoly list \<Rightarrow> exn + mpoly list" where
  "solve_poly d coeffs =
     (if d = NegInfinity \<or> d = Degree 0 then Inr []
      else if d = Degree 1 \<and> length coeffs = 2
      then Inr [const (- number_of (coeffs ! 1) / number_of (coeffs ! 0))]
      else if d = Degree 2 \<and> length coeffs = 3
      then Inr (quadratic_solutions (number_of (coeffs ! 0)) (number_of (coeffs ! 1))
                  (number_of (coeffs ! 2)))
      else if coeffs \<noteq> [] \<and> list_all (\<lambda>e. number_of e = 0) (tl coeffs)
      then Inr [const 0]
      else Inl unsupported)"

definition mini_solve :: "mpoly \<times> mpoly \<Rightarrow> symbols \<Rightarrow> exn + mpoly list" where
  "mini_solve eq syms =
     (let poly = padd (fst eq) (pscale (- 1) (snd eq))
      in case syms of
           SymTuple ns \<Rightarrow>
             (case as_const poly of Some c \<Rightarrow> Inr [] | None \<Rightarrow> Inl unsupported)
         | Symbol x \<Rightarrow>
             (case rbind (mini_Poly poly syms) (\<lambda>p.
                   rbind (mini_degree p) (\<lambda>d.
                   rbind (mini_all_coeffs p) (\<lambda>coeffs. Inr (d, coeffs)))) of
                Inl _ \<Rightarrow> Inl unsupported
              | Inr (d, coeffs) \<Rightarrow> solve_poly d coeffs))"

text \<open>The variable of \<open>diff\<close>: a symbol, or text that parses to a variable.\<close>

definition resolve_var :: "var \<Rightarrow> ustring option" where
  "resolve_var v =
     (case v of
        VSym n \<Rightarrow> Some n
      | VText t \<Rightarrow> (case mini_sympify t of Inr p \<Rightarrow> as_var p | Inl _ \<Rightarrow> None))"

definition mini_diff :: "mpoly \<Rightarrow> var \<Rightarrow> exn + mpoly" where
  "mini_diff f v =
     (case resolve_var v of
        None \<Rightarrow> Inl (Exn (ustr ''ValueError'') (ustr ''cannot differentiate with respect to this''))
      | Some x \<Rightarrow> (case pdiff x f of Some d \<Rightarrow> Inr d | None \<Rightarrow> Inl unsupported))"

text \<open>The variable of \<open>integrate\<close> has to be a symbol: for text, \<open>'x'\<close> too, it
  raises \<open>Invalid limits given: ('x',)\<close> (39 is the quote).\<close>

definition mini_integrate :: "mpoly \<Rightarrow> var \<Rightarrow> exn + mpoly" where
  "mini_integrate f v =
     (case v of
        VText t \<Rightarrow>
          Inl (Exn (ustr ''ValueError'')
                 (ustr ''Invalid limits given: ('' @ [39] @ t @ [39] @ ustr '',)''))
      | VSym x \<Rightarrow> (case pint x f of Some i \<Rightarrow> Inr i | None \<Rightarrow> Inl unsupported))"

definition str_int :: "int \<Rightarrow> ustring" where
  "str_int i = (if i < 0 then 45 # nat_digits (nat (- i)) else nat_digits (nat i))"

definition str_rat :: "rat \<Rightarrow> ustring" where
  "str_rat c = (case quotient_of c of (p, q) \<Rightarrow> if q = 1 then str_int p else str_int p @ [47] @ str_int q)"

fun join :: "ustring \<Rightarrow> ustring list \<Rightarrow> ustring" where
  "join sep [] = []"
| "join sep [s] = s"
| "join sep (s # t # ts) = s @ sep @ join sep (t # ts)"

definition str_power :: "ustring \<times> nat \<Rightarrow> ustring" where
  "str_power xk = (case xk of (x, k) \<Rightarrow> if k = 1 then x else x @ ustr ''**'' @ nat_digits k)"

definition str_term :: "monomial \<times> rat \<Rightarrow> ustring" where
  "str_term t =
     (case t of
        (m, c) \<Rightarrow>
          if m = [] then str_rat c
          else if c = 1 then join (ustr ''*'') (map str_power m)
          else join (ustr ''*'') (str_rat c # map str_power m))"

definition mini_str :: "mpoly \<Rightarrow> ustring" where
  "mini_str p = (if p = [] then ustr ''0'' else join (ustr '' + '') (map str_term (rev p)))"

text \<open>
  Modelled from the spec: the engine of section 6, with the functions above in the
  fields of the record. Polynomials are in normal form, so \<open>simplify\<close>, \<open>expand\<close>
  and \<open>nsimplify\<close> return their argument, and \<open>N\<close> keeps numbers exact.
\<close>

definition mini_engine :: "(mpoly, mini_poly) engine" where
  "mini_engine =
     \<lparr> sympify = mini_sympify,
       integer = (\<lambda>i. const (of_int i)),
       binop = mini_binop,
       neg = (\<lambda>a. Inr (pscale (- 1) a)),
       equals_int = (\<lambda>a i. a = const (of_int i)),
       less_int = mini_less_int,
       simplify = Inr,
       expand = Inr,
       nsimplify = Inr,
       sp_sqrt = mini_sqrt,
       N = Inr,
       Poly = mini_Poly,
       degree = mini_degree,
       all_coeffs = mini_all_coeffs,
       solve = mini_solve,
       diff = mini_diff,
       integrate = mini_integrate,
       pretty = mini_str,
       pretty_eq = (\<lambda>eq. mini_str (fst eq) @ ustr '' = '' @ mini_str (snd eq)),
       pretty_list = (\<lambda>xs. ustr ''['' @ join (ustr '', '') (map mini_str xs) @ ustr '']''),
       str = mini_str \<rparr>"

text \<open>
  The normal form: the names of a monomial ascend strictly and its exponents are
  positive; the coefficient of a term is not zero.
\<close>

definition wf_mono :: "monomial \<Rightarrow> bool" where
  "wf_mono m \<longleftrightarrow> sorted_wrt (<) (map fst m) \<and> list_all (\<lambda>(x, k). 0 < k) m"

definition wf_term :: "monomial \<times> rat \<Rightarrow> bool" where
  "wf_term t \<longleftrightarrow> wf_mono (fst t) \<and> snd t \<noteq> 0"

section \<open>The examples\<close>

text \<open>
  The zero forms \<open>2*x - 4\<close> and \<open>x**2 - 5*x + 6\<close> as values of the polynomial
  engine, and the steps the solve narrator gives for \<open>2*x+3=7\<close> and
  \<open>x^2-5*x+6=0\<close> there.
\<close>

definition linear_zero_form :: mpoly where
  "linear_zero_form = [([], - 4), ([(ustr ''x'', 1)], 2)]"

definition quadratic_zero_form :: mpoly where
  "quadratic_zero_form = [([], 6), ([(ustr ''x'', 1)], - 5), ([(ustr ''x'', 2)], 1)]"



definition linear_steps :: "ustring list" where
  "linear_steps =
     [ustr ''Original equation: 2*x + 3 = 7'', ustr ''Simplify to one side: 2*x + -4 = 0'',
      ustr ''Linear equation with a=2, b=-4'', ustr ''Solve: x = -b/a = 2'']"

definition quadratic_steps :: "ustring list" where
  "quadratic_steps =
     [ustr ''Original equation: x**2 + -5*x + 6 = 0'',
      ustr ''Simplify to one side: x**2 + -5*x + 6 = 0'',
      ustr ''Quadratic detected with a=1, b=-5, c=6'',
      ustr ''Discriminant '' @ [916] @ ustr '' = b'' @ [178] @ ustr '' - 4ac = 1'',
      ustr ''Roots: x = (-b '' @ [177] @ ustr '' '' @ [8730, 916] @ ustr '') / (2a) '' @
        [8594] @ ustr '' 3, 2'']"

text \<open>Parsing both sides of an equation and forming the expanded zero form, as
  \<open>solve_equation_steps\<close> does before it looks at the degree.\<close>

definition parsed_zero_form :: "('e, 'p) engine \<Rightarrow> ustring \<Rightarrow> ustring \<Rightarrow> exn + 'e" where
  "parsed_zero_form E lhs rhs =
     rbind (sympify E lhs) (\<lambda>lhs_e.
     rbind (sympify E rhs) (\<lambda>rhs_e.
     rbind (zero_form E lhs_e rhs_e) (expand E)))"


text \<open>The expression \<open>sin(x)*x\<close> and its derivative \<open>x*cos(x) + sin(x)\<close>.\<close>

definition product_form :: mpoly where
  "product_form = [([(ustr ''sin(x)'', 1), (ustr ''x'', 1)], 1)]"

definition product_derivative :: mpoly where
  "product_derivative =
     [([(ustr ''cos(x)'', 1), (ustr ''x'', 1)], 1), ([(ustr ''sin(x)'', 1)], 1)]"

text \<open>The integrand \<open>x**x\<close> and its unevaluated integral.\<close>

definition power_form :: mpoly where
  "power_form = [([(ustr ''x**x'', 1)], 1)]"

definition unevaluated_form :: mpoly where
  "unevaluated_form = [([(ustr ''Integral(x**x, x)'', 1)], 1)]"








section \<open>Normalisation\<close>

lemma py_replace_absent: "old \<notin> set s \<Longrightarrow> py_replace old new s = s"
  by (induction s) (auto simp: py_replace_def)

lemma set_py_replace: "set (py_replace old new s) \<subseteq> (set s - {old}) \<union> set new"
  by (induction s) (auto simp: py_replace_def)

lemma set_py_strip: "set (py_strip s) \<subseteq> set s"
  unfolding py_strip_def by (auto dest!: set_dropWhileD)

lemma last_dropWhile_keep:
  "dropWhile P xs \<noteq> [] \<Longrightarrow> last (dropWhile P xs) = last xs"
  by (induction xs) (auto split: if_splits)

lemma dropWhile_rev_fixed:
  assumes "t = [] \<or> \<not> P (hd t)"
  shows "dropWhile P (rev (dropWhile P (rev t))) = rev (dropWhile P (rev t))"
proof -
  define w where "w = dropWhile P (rev t)"
  show ?thesis
  proof (cases "w = []")
    case True
    then have "dropWhile P (rev t) = []" by (simp only: w_def)
    then show ?thesis by (simp only: rev.simps dropWhile.simps)
  next
    case False
    then have t: "t \<noteq> []" by (auto simp: w_def)
    have "last w = last (rev t)" using False by (simp add: w_def last_dropWhile_keep)
    then have "hd (rev w) = hd t" using False t by (simp add: hd_rev last_rev)
    then have "\<not> P (hd (rev w))" using assms t by simp
    then have "dropWhile P (rev w) = rev w" using False by (cases "rev w") auto
    then show ?thesis by (simp add: w_def)
  qed
qed

lemma py_strip_idem: "py_strip (py_strip s) = py_strip s"
proof -
  let ?t = "dropWhile py_isspace s"
  have "?t = [] \<or> \<not> py_isspace (hd ?t)" using hd_dropWhile by blast
  then have "dropWhile py_isspace (rev (dropWhile py_isspace (rev ?t)))
      = rev (dropWhile py_isspace (rev ?t))"
    by (rule dropWhile_rev_fixed)
  then show ?thesis
    unfolding py_strip_def by (simp add: dropWhile_idem)
qed

lemma sanitize_input_chars:
  "94 \<notin> set (sanitize_input s)" "247 \<notin> set (sanitize_input s)"
proof -
  let ?a = "py_replace 94 (ustr ''**'') s"
  let ?b = "py_replace 247 (ustr ''/'') ?a"
  have a: "94 \<notin> set ?a" using set_py_replace [of 94 "ustr ''**''" s] by (auto simp: ustr_def)
  have b: "247 \<notin> set ?b" using set_py_replace [of 247 "ustr ''/''" ?a] by (auto simp: ustr_def)
  have b': "94 \<notin> set ?b"
    using set_py_replace [of 247 "ustr ''/''" ?a] a by (auto simp: ustr_def)
  show "94 \<notin> set (sanitize_input s)" "247 \<notin> set (sanitize_input s)"
    using set_py_strip [of ?b] b b' by (auto simp: sanitize_input_def)
qed

text \<open>
  C5. Normalisation is idempotent: for every string \<open>s\<close>, sanitising the sanitised
  string gives the sanitised string again. After one pass no caret and no division
  sign is left and the text is already stripped, so the second pass changes nothing.
\<close>

theorem sanitize_input_idempotent:
  "sanitize_input (sanitize_input s) = sanitize_input s"
proof -
  let ?t = "sanitize_input s"
  have "py_replace 94 (ustr ''**'') ?t = ?t"
    by (rule py_replace_absent) (rule sanitize_input_chars)
  moreover have "py_replace 247 (ustr ''/'') ?t = ?t"
    by (rule py_replace_absent) (rule sanitize_input_chars)
  moreover have "py_strip ?t = ?t"
    by (simp add: sanitize_input_def py_strip_idem)
  ultimately show ?thesis
    by (simp add: sanitize_input_def [of ?t])
qed

section \<open>The equals sign of an equation\<close>

lemma count_py_replace:
  "c \<noteq> old \<Longrightarrow> c \<notin> set new \<Longrightarrow> count_list (py_replace old new s) c = count_list s c"
  by (induction s) (auto simp: py_replace_def)

lemma count_dropWhile: "\<not> P c \<Longrightarrow> count_list (dropWhile P s) c = count_list s c"
  by (induction s) auto

lemma count_rev: "count_list (rev s) c = count_list s c"
  by (induction s) auto

lemma count_py_strip: "\<not> py_isspace c \<Longrightarrow> count_list (py_strip s) c = count_list s c"
  by (simp add: py_strip_def count_rev count_dropWhile)

lemma count_sanitize_input_equals: "count_list (sanitize_input s) 61 = count_list s 61"
  by (simp add: sanitize_input_def count_py_strip count_py_replace py_isspace_def ustr_def)

lemma length_split_from: "length (split_from sep cur s) = Suc (count_list s sep)"
  by (induction s arbitrary: cur) auto

lemma length_py_split: "length (py_split sep s) = Suc (count_list s sep)"
  by (simp add: py_split_def length_split_from)

text \<open>
  C7. A solve query whose text holds no equals sign (code point 61), or more than
  one, gets the result \<open>None\<close> and the single step that asks for exactly one
  equals sign. The outcome is the same for every engine \<open>E\<close>, whatever its
  functions do: nothing is parsed and nothing is solved.
\<close>

theorem solve_needs_one_equals_sign:
  assumes "count_list equation_str 61 \<noteq> 1"
  shows "solve_equation_steps E equation_str = Inr (None, [equals_sign_message])"
proof -
  have "length (py_split 61 (sanitize_input equation_str)) \<noteq> 2"
    using assms by (simp add: length_py_split count_sanitize_input_equals)
  then show ?thesis
    by (auto simp: solve_equation_steps_def Let_def split: list.splits)
qed

theorem solve_needs_one_equals_sign_witness:
  "count_list (ustr ''x+1'') 61 \<noteq> 1 \<and> count_list (ustr ''x=1=2'') 61 \<noteq> 1 \<and>
   solve_equation_steps mini_engine (ustr ''x+1'') = Inr (None, [equals_sign_message]) \<and>
   solve_equation_steps mini_engine (ustr ''x=1=2'') = Inr (None, [equals_sign_message])"
  using solve_needs_one_equals_sign [of "ustr ''x+1''" mini_engine]
    solve_needs_one_equals_sign [of "ustr ''x=1=2''" mini_engine]
  by (simp add: ustr_def)

section \<open>Failures inside and outside the narrators\<close>

lemma rbind_Inl [simp]: "rbind (Inl e) f = Inl e"
  by (simp add: rbind_def)

lemma rbind_Inr [simp]: "rbind (Inr v) f = f v"
  by (simp add: rbind_def)

lemma integral_steps_failure:
  assumes "unwrap_call (ustr ''integrate('') (sanitize_input expr_str) var0 = (expr_part, var1)"
    and "sympify E expr_part = Inr f"
    and "integrate E f (choose_var expr_part var1) = Inl e"
  shows "integral_steps E expr_str var0 =
           Inr (None, [ustr ''Could not integrate: '' @ exn_str e])"
  using assms by (simp add: integral_steps_def Let_def)





lemma simplify_steps_raises:
  "sympify E (sanitize_input expr_str) = Inr f \<Longrightarrow> simplify E f = Inl e \<Longrightarrow>
   simplify_steps E expr_str = Inl e"
  by (simp add: simplify_steps_def Let_def)


lemma solve_general_failure:
  "solve E eq syms = Inl e \<Longrightarrow>
   solve_general E eq syms steps = Inr (None, [ustr ''Could not solve: '' @ exn_str e])"
  by (simp add: solve_general_def Let_def)

lemma kinds_distinct:
  "ustr ''solve'' \<noteq> ustr ''auto''" "ustr ''diff'' \<noteq> ustr ''auto''"
  "ustr ''diff'' \<noteq> ustr ''solve''" "ustr ''integrate'' \<noteq> ustr ''auto''"
  "ustr ''integrate'' \<noteq> ustr ''solve''" "ustr ''integrate'' \<noteq> ustr ''diff''"
  "ustr ''simplify'' \<noteq> ustr ''auto''" "ustr ''simplify'' \<noteq> ustr ''solve''"
  "ustr ''simplify'' \<noteq> ustr ''diff''" "ustr ''simplify'' \<noteq> ustr ''integrate''"
  by (simp_all add: ustr_def)


lemma dispatch_explicit:
  "dispatch E (ustr ''solve'') query = as_solutions (solve_equation_steps E query)"
  "dispatch E (ustr ''diff'') query = as_value (derivative_steps E query None)"
  "dispatch E (ustr ''integrate'') query = as_value (integral_steps E query None)"
  "dispatch E (ustr ''simplify'') query = as_value (simplify_steps E query)"
  by (simp_all add: dispatch_def kinds_distinct)

lemma as_value_Inl [simp]: "as_value (Inl e) = Inl e"
  by (simp add: as_value_def)

lemma as_solutions_Inl [simp]: "as_solutions (Inl e) = Inl e"
  by (simp add: as_solutions_def)

lemma integral_steps_returns_value:
  assumes "unwrap_call (ustr ''integrate('') (sanitize_input expr_str) var0 = (expr_part, var1)"
    and "sympify E expr_part = Inr f"
    and "integrate E f (choose_var expr_part var1) = Inr I"
  shows "integral_steps E expr_str var0 =
           Inr (Some I,
                [ustr ''Integrand: '' @ pretty E f,
                 ustr ''Integrate w.r.t '' @ str_var (choose_var expr_part var1),
                 ustr ''Result: '' @ pretty E I @ ustr '' + C''])"
  using assms by (simp add: integral_steps_def Let_def)

lemma ex_power_unwrap:
  "unwrap_call (ustr ''integrate('') (sanitize_input (ustr ''x^x'')) None = (ustr ''x**x'', None)"
  by code_simp

lemma ex_power_parse: "sympify mini_engine (ustr ''x**x'') = Inr power_form"
  by code_simp

lemma ex_power_var: "choose_var (ustr ''x**x'') None = VSym (ustr ''x'')"
  by code_simp

lemma ex_power_integral:
  "integrate mini_engine power_form (VSym (ustr ''x'')) = Inr unevaluated_form"
  by code_simp

lemma ex_power_pretty:
  "pretty mini_engine power_form = ustr ''x**x''"
  "pretty mini_engine unevaluated_form = ustr ''Integral(x**x, x)''"
  by code_simp+

lemma ex_text_variable:
  "integral_steps mini_engine (ustr ''integrate(x^2, x)'') None =
     Inr (None, [ustr ''Could not integrate: Invalid limits given: ('' @ [39] @ ustr ''x'' @ [39] @
                 ustr '',)''])"
  by code_simp

text \<open>
  C2 does not hold of the program. \<open>integral_steps\<close> has a \<open>try\<close> around
  \<open>sp.integrate\<close> and reports an exception of the call as the result \<open>None\<close> with
  the single step \<open>Could not integrate: <message>\<close>; so it does for
  \<open>integrate(x^2, x)\<close>, where the variable is text. But an integrand without an
  antiderivative in closed form raises no exception: the engine returns the
  integral unevaluated, and whatever the call returns is taken as the result. For
  the query \<open>x^x\<close> the expression parses to \<open>x**x\<close>, the variable found is the
  symbol \<open>x\<close>, the engine returns \<open>Integral(x**x, x)\<close>, and the narrator returns
  this as its result, with the last step \<open>Result: Integral(x**x, x) + C\<close>: the
  result is not \<open>None\<close> and no step names a failure.
\<close>

theorem integrate_without_closed_form:
  "sympify mini_engine (ustr ''x**x'') = Inr power_form \<and>
   integrate mini_engine power_form (VSym (ustr ''x'')) = Inr unevaluated_form \<and>
   integral_steps mini_engine (ustr ''x^x'') None =
     Inr (Some unevaluated_form,
          [ustr ''Integrand: x**x'', ustr ''Integrate w.r.t x'',
           ustr ''Result: Integral(x**x, x) + C'']) \<and>
   integral_steps mini_engine (ustr ''integrate(x^2, x)'') None =
     Inr (None, [ustr ''Could not integrate: Invalid limits given: ('' @ [39] @ ustr ''x'' @ [39] @
                 ustr '',)''])"
  using integral_steps_returns_value [OF ex_power_unwrap ex_power_parse,
      of unevaluated_form] ex_power_var ex_power_integral ex_power_parse ex_power_pretty
    ex_text_variable
  by (simp add: str_var_def ustr_def)

section \<open>The wrapped and the bare form of a derivative\<close>

lemma ex_wrapped_call:
  "unwrap_call (ustr ''diff('') (sanitize_input (ustr ''diff(sin(x)*x, x)'')) None =
     (ustr ''sin(x)*x'', Some (VText (ustr ''x'')))"
  by code_simp

lemma ex_bare_call:
  "unwrap_call (ustr ''diff('') (sanitize_input (ustr ''sin(x)*x'')) None =
     (ustr ''sin(x)*x'', None)"
  by code_simp

lemma choose_var_Some: "choose_var expr_part (Some v) = v"
  by (simp add: choose_var_def)

lemma ustr_append: "ustr a @ ustr b = ustr (a @ b)"
  by (simp add: ustr_def)

lemma ex_bare_var: "choose_var (ustr ''sin(x)*x'') None = VSym (ustr ''x'')"
  by code_simp

text \<open>
  C9. \<open>derivative_steps\<close> on \<open>diff(sin(x)*x, x)\<close> and on \<open>sin(x)*x\<close>: the wrapped
  form is cut into the expression \<open>sin(x)*x\<close> and the variable text \<open>x\<close>; the bare
  form keeps the expression, and the detected symbols, \<open>sin\<close> being a function
  name, leave the symbol \<open>x\<close>. When the engine parses \<open>sin(x)*x\<close> to \<open>f\<close> and
  gives the derivative \<open>d\<close> of \<open>f\<close> with respect to the symbol \<open>x\<close>, and the same
  with respect to the text \<open>x\<close>, both calls return the derivative \<open>d\<close> as their
  result, with the same three steps. On the polynomial engine \<open>d\<close> is
  \<open>x*cos(x) + sin(x)\<close>.
\<close>

theorem derivative_wrapped_and_bare_agree:
  assumes "sympify E (ustr ''sin(x)*x'') = Inr f"
    and "diff E f (VSym (ustr ''x'')) = Inr d"
    and "diff E f (VText (ustr ''x'')) = diff E f (VSym (ustr ''x''))"
  shows "derivative_steps E (ustr ''diff(sin(x)*x, x)'') None =
           Inr (Some d,
                [ustr ''Function: '' @ pretty E f, ustr ''Differentiate w.r.t x'',
                 ustr ''Result: '' @ pretty E d]) \<and>
         derivative_steps E (ustr ''sin(x)*x'') None =
           Inr (Some d,
                [ustr ''Function: '' @ pretty E f, ustr ''Differentiate w.r.t x'',
                 ustr ''Result: '' @ pretty E d])"
  using assms
  by (simp add: derivative_steps_def Let_def ex_wrapped_call ex_bare_call ex_bare_var
      choose_var_Some str_var_def ustr_append)

lemma ex_product_parse: "sympify mini_engine (ustr ''sin(x)*x'') = Inr product_form"
  by code_simp

lemma ex_product_diff:
  "diff mini_engine product_form (VSym (ustr ''x'')) = Inr product_derivative"
  "diff mini_engine product_form (VText (ustr ''x'')) = Inr product_derivative"
  by code_simp+

lemma ex_product_pretty:
  "pretty mini_engine product_form = ustr ''sin(x)*x''"
  "pretty mini_engine product_derivative = ustr ''sin(x) + cos(x)*x''"
  by code_simp+

theorem derivative_wrapped_and_bare_agree_witness:
  "sympify mini_engine (ustr ''sin(x)*x'') = Inr product_form \<and>
   diff mini_engine product_form (VSym (ustr ''x'')) = Inr product_derivative \<and>
   diff mini_engine product_form (VText (ustr ''x'')) = Inr product_derivative \<and>
   derivative_steps mini_engine (ustr ''diff(sin(x)*x, x)'') None =
     Inr (Some product_derivative,
          [ustr ''Function: sin(x)*x'', ustr ''Differentiate w.r.t x'',
           ustr ''Result: sin(x) + cos(x)*x'']) \<and>
   derivative_steps mini_engine (ustr ''sin(x)*x'') None =
     Inr (Some product_derivative,
          [ustr ''Function: sin(x)*x'', ustr ''Differentiate w.r.t x'',
           ustr ''Result: sin(x) + cos(x)*x''])"
  using derivative_wrapped_and_bare_agree [of mini_engine product_form product_derivative]
    ex_product_parse ex_product_diff ex_product_pretty
  by (simp add: ustr_def)

section \<open>The operation mode\<close>

lemma dispatch_unknown:
  "kind \<notin> set modes \<Longrightarrow> dispatch E kind query = Inr (None, [])"
  by (simp add: dispatch_def modes_def)

lemma api_body_unknown:
  "kind \<notin> set modes \<Longrightarrow> api_body E kind query = api_evaluate E query"
  by (simp add: api_body_def modes_def Let_def)

lemma ex_index_foo:
  "index mini_engine (POST (Some (ustr ''2*x+3=7'')) (Some (ustr ''foo''))) =
     (None, [], ustr ''2*x+3=7'')"
  by code_simp

lemma ex_index_auto:
  "index mini_engine (POST (Some (ustr ''2*x+3=7'')) (Some (ustr ''auto''))) =
     (Some (Solutions [const 2]),
      [ustr ''Original equation: 2*x + 3 = 7'', ustr ''Simplify to one side: 2*x + -4 = 0'',
       ustr ''Linear equation with a=2, b=-4'', ustr ''Solve: x = -b/a = 2''],
      ustr ''2*x+3=7'')"
  by code_simp

lemma ex_api_foo:
  "api_solve mini_engine (Some (ustr ''2*x+3=7'')) (Some (ustr ''foo'')) =
     ErrorResponse (ustr ''could not parse the expression'') 500"
  by code_simp

lemma ex_api_auto:
  "api_solve mini_engine (Some (ustr ''2*x+3=7'')) (Some (ustr ''auto'')) =
     ResultResponse (JList [ustr ''2''])
      [ustr ''Original equation: 2*x + 3 = 7'', ustr ''Simplify to one side: 2*x + -4 = 0'',
       ustr ''Linear equation with a=2, b=-4'', ustr ''Solve: x = -b/a = 2'']"
  by code_simp

lemma ex_foo_unknown: "ustr ''foo'' \<notin> set modes"
  by (simp add: modes_def ustr_def)

text \<open>
  C3, as the spec states it, fails. The mode \<open>foo\<close> is none of the five modes. For
  the query \<open>2*x+3=7\<close> the automatic mode solves the equation, on both pages; with
  the mode \<open>foo\<close> the page \<open>index\<close> shows no result and no steps, and
  \<open>/api/solve\<close> tries to evaluate the whole text and answers with an error.
\<close>

theorem unknown_mode_counterexample:
  "ustr ''foo'' \<notin> set modes \<and>
   index mini_engine (POST (Some (ustr ''2*x+3=7'')) (Some (ustr ''foo''))) =
     (None, [], ustr ''2*x+3=7'') \<and>
   index mini_engine (POST (Some (ustr ''2*x+3=7'')) (Some (ustr ''auto''))) =
     (Some (Solutions [const 2]),
      [ustr ''Original equation: 2*x + 3 = 7'', ustr ''Simplify to one side: 2*x + -4 = 0'',
       ustr ''Linear equation with a=2, b=-4'', ustr ''Solve: x = -b/a = 2''],
      ustr ''2*x+3=7'') \<and>
   api_solve mini_engine (Some (ustr ''2*x+3=7'')) (Some (ustr ''foo'')) =
     ErrorResponse (ustr ''could not parse the expression'') 500 \<and>
   api_solve mini_engine (Some (ustr ''2*x+3=7'')) (Some (ustr ''auto'')) =
     ResultResponse (JList [ustr ''2''])
      [ustr ''Original equation: 2*x + 3 = 7'', ustr ''Simplify to one side: 2*x + -4 = 0'',
       ustr ''Linear equation with a=2, b=-4'', ustr ''Solve: x = -b/a = 2'']"
  using ex_foo_unknown ex_index_foo ex_index_auto ex_api_foo ex_api_auto by simp

text \<open>
  C3, amended. A missing mode is the mode \<open>auto\<close>. A mode that is given and is
  none of \<open>auto\<close>, \<open>solve\<close>, \<open>diff\<close>, \<open>integrate\<close>, \<open>simplify\<close> selects no narrator:
  \<open>index\<close> shows the result \<open>None\<close> and no steps, and \<open>/api/solve\<close>, for a query
  that is not empty, parses and evaluates the whole query (and answers with status
  500 when that raises).
\<close>

theorem unknown_mode_selects_no_narrator:
  assumes "kind \<notin> set modes"
  shows "index E (POST q None) = index E (POST q (Some (ustr ''auto''))) \<and>
         api_solve E q None = api_solve E q (Some (ustr ''auto'')) \<and>
         index E (POST q (Some kind)) = (None, [], sanitize_input (form_get q [])) \<and>
         (sanitize_input (form_get q []) \<noteq> [] \<longrightarrow>
            api_solve E q (Some kind) =
              (case api_evaluate E (sanitize_input (form_get q [])) of
                 Inr r \<Rightarrow> r
               | Inl e \<Rightarrow> ErrorResponse (exn_str e) 500))"
  using assms
  by (simp add: index_def api_solve_def Let_def form_get_def dispatch_unknown api_body_unknown)

lemma ex_sanitized_nonempty: "sanitize_input (form_get (Some (ustr ''2*x+3=7'')) []) \<noteq> []"
  by code_simp

theorem unknown_mode_selects_no_narrator_witness:
  "ustr ''foo'' \<notin> set modes \<and>
   sanitize_input (form_get (Some (ustr ''2*x+3=7'')) []) \<noteq> [] \<and>
   index mini_engine (POST (Some (ustr ''2*x+3=7'')) (Some (ustr ''foo''))) =
     (None, [], sanitize_input (form_get (Some (ustr ''2*x+3=7'')) [])) \<and>
   api_solve mini_engine (Some (ustr ''2*x+3=7'')) (Some (ustr ''foo'')) =
     (case api_evaluate mini_engine (sanitize_input (form_get (Some (ustr ''2*x+3=7'')) [])) of
        Inr r \<Rightarrow> r
      | Inl e \<Rightarrow> ErrorResponse (exn_str e) 500)"
  using unknown_mode_selects_no_narrator
      [OF ex_foo_unknown, of mini_engine "Some (ustr ''2*x+3=7'')"]
    ex_foo_unknown ex_sanitized_nonempty
  by simp

section \<open>What a narrator catches and what it lets through\<close>
































section \<open>Symbol detection\<close>

lemma findall_letters_Nil: "findall_letters [] = []"
  by simp

lemma findall_letters_Cons:
  "findall_letters (c # s) =
     (if is_ascii_letter c
      then (c # takeWhile is_ascii_letter s) # findall_letters (dropWhile is_ascii_letter s)
      else findall_letters s)"
  by (subst findall_letters.simps, subst (3) findall_letters.simps) simp

lemmas [simp del] = findall_letters.simps

lemma maximal_runs_Nil: "maximal_runs [] = {}"
  by (auto simp: maximal_runs_def)

lemma maximal_runs_skip:
  assumes "\<not> is_ascii_letter c"
  shows "maximal_runs (c # s) = maximal_runs s"
proof (intro set_eqI iffI)
  fix t assume "t \<in> maximal_runs (c # s)"
  then obtain pre post where d: "c # s = pre @ t @ post" "t \<noteq> []" "list_all is_ascii_letter t"
    "pre = [] \<or> \<not> is_ascii_letter (last pre)" "post = [] \<or> \<not> is_ascii_letter (hd post)"
    by (auto simp: maximal_runs_def)
  have "pre \<noteq> []"
  proof
    assume "pre = []"
    then have "hd t = c" using d(1,2) by (cases t) auto
    then show False using d(2,3) assms by (cases t) auto
  qed
  then obtain pre' where p: "pre = c # pre'" using d(1) by (cases pre) auto
  then have "s = pre' @ t @ post" using d(1) by simp
  moreover have "pre' = [] \<or> \<not> is_ascii_letter (last pre')" using d(4) p by auto
  ultimately show "t \<in> maximal_runs s" using d(2,3,5) by (auto simp: maximal_runs_def)
next
  fix t assume "t \<in> maximal_runs s"
  then obtain pre post where d: "s = pre @ t @ post" "t \<noteq> []" "list_all is_ascii_letter t"
    "pre = [] \<or> \<not> is_ascii_letter (last pre)" "post = [] \<or> \<not> is_ascii_letter (hd post)"
    by (auto simp: maximal_runs_def)
  have "c # s = (c # pre) @ t @ post" using d(1) by simp
  moreover have "\<not> is_ascii_letter (last (c # pre))" using d(4) assms by auto
  ultimately show "t \<in> maximal_runs (c # s)"
    unfolding maximal_runs_def using d(2,3,5) by blast
qed

lemma takeWhile_run:
  assumes "list_all P t" "post = [] \<or> \<not> P (hd post)"
  shows "takeWhile P (t @ post) = t"
proof -
  have "takeWhile P post = []" using assms(2) by (cases post) auto
  then show ?thesis using assms(1) by (induction t) auto
qed

lemma dropWhile_stops: "dropWhile P s = [] \<or> \<not> P (hd (dropWhile P s))"
  using hd_dropWhile by blast

lemma maximal_runs_take:
  assumes "is_ascii_letter c"
  shows "maximal_runs (c # s) =
           insert (c # takeWhile is_ascii_letter s) (maximal_runs (dropWhile is_ascii_letter s))"
    (is "_ = insert ?t0 (maximal_runs ?w)")
proof (intro set_eqI iffI)
  fix t assume "t \<in> maximal_runs (c # s)"
  then obtain pre post where d: "c # s = pre @ t @ post" "t \<noteq> []" "list_all is_ascii_letter t"
    "pre = [] \<or> \<not> is_ascii_letter (last pre)" "post = [] \<or> \<not> is_ascii_letter (hd post)"
    by (auto simp: maximal_runs_def)
  show "t \<in> insert ?t0 (maximal_runs ?w)"
  proof (cases pre)
    case Nil
    then have "takeWhile is_ascii_letter (c # s) = t"
      using d(1) takeWhile_run [OF d(3) d(5)] by simp
    then show ?thesis using assms by auto
  next
    case (Cons d' pre')
    then have s: "s = pre' @ t @ post" and c: "d' = c" using d(1) by auto
    have nl: "\<not> is_ascii_letter (last pre)" using d(4) Cons by simp
    then have ne: "pre' \<noteq> []" using Cons c assms by auto
    then have l: "last pre' \<in> set pre'" "\<not> is_ascii_letter (last pre')" using nl Cons by auto
    have w: "?w = dropWhile is_ascii_letter pre' @ t @ post"
      unfolding s using l by (simp add: dropWhile_append1)
    have "dropWhile is_ascii_letter pre' \<noteq> []"
      using l by (auto simp: dropWhile_eq_Nil_conv)
    then have "\<not> is_ascii_letter (last (dropWhile is_ascii_letter pre'))"
      using l(2) by (simp add: last_dropWhile_keep)
    then show ?thesis using w d(2,3,5) unfolding maximal_runs_def by blast
  qed
next
  fix t assume a: "t \<in> insert ?t0 (maximal_runs ?w)"
  show "t \<in> maximal_runs (c # s)"
  proof (cases "t = ?t0")
    case True
    have "c # s = [] @ ?t0 @ ?w" by simp
    moreover have "list_all is_ascii_letter ?t0"
      using assms by (auto simp: list_all_iff dest: set_takeWhileD)
    ultimately show ?thesis
      unfolding maximal_runs_def True using dropWhile_stops [of is_ascii_letter s] by blast
  next
    case False
    then have "t \<in> maximal_runs ?w" using a by simp
    then obtain pre post where d: "?w = pre @ t @ post" "t \<noteq> []" "list_all is_ascii_letter t"
      "pre = [] \<or> \<not> is_ascii_letter (last pre)" "post = [] \<or> \<not> is_ascii_letter (hd post)"
      by (auto simp: maximal_runs_def)
    have "pre \<noteq> []"
    proof
      assume "pre = []"
      then have "hd ?w = hd t" "?w \<noteq> []" using d(1,2) by auto
      moreover have "is_ascii_letter (hd t)" using d(2,3) by (cases t) auto
      ultimately show False using dropWhile_stops [of is_ascii_letter s] by auto
    qed
    then have "\<not> is_ascii_letter (last (?t0 @ pre))" using d(4) by simp
    moreover have "c # s = (?t0 @ pre) @ t @ post"
      using d(1) takeWhile_dropWhile_id [of is_ascii_letter s] by (metis append.assoc append_Cons)
    ultimately show ?thesis unfolding maximal_runs_def using d(2,3,5) by blast
  qed
qed

lemma set_findall_letters: "set (findall_letters s) = maximal_runs s"
proof (induction s rule: length_induct)
  case (1 s)
  show ?case
  proof (cases s)
    case Nil
    then show ?thesis by (simp add: findall_letters_Nil maximal_runs_Nil)
  next
    case (Cons c cs)
    show ?thesis
    proof (cases "is_ascii_letter c")
      case True
      have "length (dropWhile is_ascii_letter cs) < length s"
        using Cons length_dropWhile_le [of is_ascii_letter cs] by simp
      then have "set (findall_letters (dropWhile is_ascii_letter cs)) =
                 maximal_runs (dropWhile is_ascii_letter cs)"
        using 1 by blast
      then show ?thesis using True Cons by (simp add: findall_letters_Cons maximal_runs_take)
    next
      case False
      have "set (findall_letters cs) = maximal_runs cs" using 1 Cons by simp
      then show ?thesis using False Cons by (simp add: findall_letters_Cons maximal_runs_skip)
    qed
  qed
qed

lemma filter_sort_remdups:
  "filter P (sort (remdups xs)) = sorted_list_of_set {t \<in> set xs. P t}"
proof (rule sorted_distinct_set_unique)
  show "sorted (filter P (sort (remdups xs)))" by (rule sorted_wrt_filter) simp
  show "distinct (filter P (sort (remdups xs)))" by simp
  show "set (filter P (sort (remdups xs))) = set (sorted_list_of_set {t \<in> set xs. P t})" by auto
qed simp_all

lemma sp_symbols_single: "sp_symbols [n] = Symbol n"
  by (simp add: sp_symbols_def)

lemma detect_names_spec:
  "detect_names s = sorted_list_of_set {t \<in> maximal_runs s. py_lower t \<notin> set funcs}"
  by (simp add: detect_names_def filter_sort_remdups set_findall_letters)

text \<open>
  C6. \<open>detect_symbols\<close> does what the spec says: the names are the maximal runs of
  ASCII letters of the text (pieces of letters with no letter before and none
  behind), without duplicates, in lexicographic order, without the names whose
  lowercase form is a reserved function name; with no name left, the result is the
  one symbol \<open>x\<close>. In particular, a text all of whose letter runs are reserved
  function names gives the symbol \<open>x\<close>.
\<close>

theorem detect_symbols_meets_spec:
  "detect_symbols s = spec_detect_symbols s \<and>
   ((\<forall>t \<in> maximal_runs s. py_lower t \<in> set funcs) \<longrightarrow> detect_symbols s = Symbol (ustr ''x''))"
proof
  show "detect_symbols s = spec_detect_symbols s"
    by (simp add: detect_symbols_def spec_detect_symbols_def detect_names_spec sp_symbols_single Let_def)
  show "(\<forall>t \<in> maximal_runs s. py_lower t \<in> set funcs) \<longrightarrow> detect_symbols s = Symbol (ustr ''x'')"
  proof
    assume "\<forall>t \<in> maximal_runs s. py_lower t \<in> set funcs"
    then have e: "{t \<in> maximal_runs s. py_lower t \<notin> set funcs} = {}" by auto
    have "detect_names s = []" unfolding detect_names_spec e by simp
    then show "detect_symbols s = Symbol (ustr ''x'')"
      by (simp add: detect_symbols_def sp_symbols_single)
  qed
qed

lemma ex_reserved_runs:
  "findall_letters (ustr ''sin cos sqrt'') = [ustr ''sin'', ustr ''cos'', ustr ''sqrt'']"
  by code_simp

lemma ex_reserved_lower:
  "list_all (\<lambda>t. py_lower t \<in> set funcs) [ustr ''sin'', ustr ''cos'', ustr ''sqrt'']"
  by code_simp

lemma ex_mixed_names: "detect_symbols (ustr ''b*sin(x) + a*X'') = SymTuple [ustr ''X'', ustr ''a'', ustr ''b'', ustr ''x'']"
  by code_simp

theorem detect_symbols_meets_spec_witness:
  "maximal_runs (ustr ''sin cos sqrt'') = {ustr ''sin'', ustr ''cos'', ustr ''sqrt''} \<and>
   list_all (\<lambda>t. py_lower t \<in> set funcs) [ustr ''sin'', ustr ''cos'', ustr ''sqrt''] \<and>
   detect_symbols (ustr ''sin cos sqrt'') = Symbol (ustr ''x'') \<and>
   spec_detect_symbols (ustr ''sin cos sqrt'') = Symbol (ustr ''x'')"
proof -
  have runs: "maximal_runs (ustr ''sin cos sqrt'') = {ustr ''sin'', ustr ''cos'', ustr ''sqrt''}"
    using set_findall_letters [of "ustr ''sin cos sqrt''"] by (simp add: ex_reserved_runs)
  have "\<forall>t \<in> maximal_runs (ustr ''sin cos sqrt''). py_lower t \<in> set funcs"
    using ex_reserved_lower unfolding runs by simp
  then have "detect_symbols (ustr ''sin cos sqrt'') = Symbol (ustr ''x'')"
    "spec_detect_symbols (ustr ''sin cos sqrt'') = Symbol (ustr ''x'')"
    using detect_symbols_meets_spec [of "ustr ''sin cos sqrt''"] by auto
  then show ?thesis
    using runs ex_reserved_lower by simp
qed

section \<open>The leading coefficient of a polynomial of degree one\<close>

lemma mono_mul_Nil2 [simp]: "mono_mul m [] = m"
  by (cases m) auto

lemma mono_mul_single:
  assumes "wf_mono acc" "0 < k"
  shows "wf_mono (mono_mul [(x, k)] acc) \<and>
         fst ` set (mono_mul [(x, k)] acc) = insert x (fst ` set acc)"
  using assms
proof (induction acc)
  case Nil
  then show ?case by (simp add: wf_mono_def)
next
  case (Cons yj acc)
  obtain y j where yj: "yj = (y, j)" by (cases yj)
  have wf: "wf_mono acc" using Cons.prems(1) by (auto simp: wf_mono_def)
  note ih = Cons.IH [OF wf Cons.prems(2)]
  show ?case
  proof (cases "x = y")
    case True
    then show ?thesis using Cons.prems yj by (auto simp: wf_mono_def)
  next
    case False
    show ?thesis
    proof (cases "x < y")
      case True
      then show ?thesis using Cons.prems yj \<open>x \<noteq> y\<close> by (auto simp: wf_mono_def)
    next
      case False
      then have "y < x" using \<open>x \<noteq> y\<close> by simp
      then show ?thesis
        using Cons.prems yj \<open>x \<noteq> y\<close> False ih by (auto simp: wf_mono_def)
    qed
  qed
qed

lemma wf_norm_mono: "wf_mono (norm_mono m)"
proof (induction m)
  case Nil
  then show ?case by (simp add: norm_mono_def wf_mono_def)
next
  case (Cons xk m)
  obtain x k where xk: "xk = (x, k)" by (cases xk)
  have "norm_mono (xk # m) = (if k = 0 then norm_mono m else mono_mul [(x, k)] (norm_mono m))"
    by (simp add: norm_mono_def xk)
  then show ?case using Cons mono_mul_single [of "norm_mono m" k x] by auto
qed

lemma add_term_wf:
  assumes "list_all wf_term q" "wf_mono m"
  shows "list_all wf_term (add_term (m, c) q)"
  using assms by (induction q) (auto simp: wf_term_def)

lemma normal_wf: "list_all wf_term (normal p)"
proof (induction p)
  case Nil
  then show ?case by (simp add: normal_def)
next
  case (Cons t p)
  obtain m c where t: "t = (m, c)" by (cases t)
  have "normal (t # p) = add_term (norm_mono m, c) (normal p)"
    by (simp add: normal_def t)
  then show ?case using Cons add_term_wf wf_norm_mono by simp
qed

lemma wf_mono_one_name:
  assumes "wf_mono m" "list_all (\<lambda>(y, k). y \<in> set [x]) m"
  shows "m = [] \<or> (\<exists>k. 0 < k \<and> m = [(x, k)])"
proof (cases m)
  case Nil
  then show ?thesis by simp
next
  case (Cons a m')
  show ?thesis
  proof (cases m')
    case Nil
    then show ?thesis using assms Cons by (auto simp: wf_mono_def)
  next
    case (Cons b m'')
    then have "fst a < fst b" using assms(1) \<open>m = a # m'\<close> by (auto simp: wf_mono_def)
    moreover have "fst a = x" "fst b = x" using assms(2) \<open>m = a # m'\<close> Cons by auto
    ultimately show ?thesis by simp
  qed
qed

lemma max_exponent_attained:
  "foldr (\<lambda>(m, c) d. max (exponent x m) d) rep 0 = Suc n \<Longrightarrow>
   \<exists>t \<in> set rep. exponent x (fst t) = Suc n"
proof (induction rep)
  case Nil
  then show ?case by simp
next
  case (Cons t rep)
  obtain m c where t: "t = (m, c)" by (cases t)
  from Cons.prems have "max (exponent x m) (foldr (\<lambda>(m, c) d. max (exponent x m) d) rep 0) = Suc n"
    by (simp add: t)
  then consider "exponent x m = Suc n" | "foldr (\<lambda>(m, c) d. max (exponent x m) d) rep 0 = Suc n"
    by (auto simp: max_def split: if_splits)
  then show ?case
  proof cases
    case 1
    then show ?thesis by (simp add: t)
  next
    case 2
    then show ?thesis using Cons.IH by auto
  qed
qed

lemma coeff_present:
  assumes "(m, c) \<in> set rep" "list_all wf_term rep"
  shows "coeff rep m \<noteq> 0"
proof -
  obtain c' where "map_of rep m = Some c'"
    using assms(1) weak_map_of_SomeI by fastforce
  moreover from this have "(m, c') \<in> set rep" by (rule map_of_SomeD)
  ultimately show ?thesis
    using assms(2) by (auto simp: coeff_def wf_term_def list_all_iff)
qed

lemma const_eq_zero: "const c = const 0 \<longleftrightarrow> c = 0"
  by (simp add: const_def)

lemma mini_leading_coefficient:
  assumes "poly_degree mini_engine poly syms = Some (p, Degree 1)"
    and "all_coeffs mini_engine p = Inr coeffs"
  shows "\<exists>a b. coeffs = [a, b] \<and> \<not> equals_int mini_engine a 0"
proof -
  obtain gens rep where p: "p = (gens, rep)" by (cases p)
  from assms(1) have P: "mini_Poly poly syms = Inr (gens, rep)"
    and D: "mini_degree (gens, rep) = Inr (Degree 1)"
    by (auto simp: poly_degree_def mini_engine_def rbind_def p split: sum.splits)
  from P have rep: "rep = normal poly"
    and cover: "list_all (\<lambda>(m, c). list_all (\<lambda>(x, k). x \<in> set gens) m) rep"
    by (auto simp: mini_Poly_def Let_def split: if_splits)
  from assms(2) obtain x where gens: "gens = [x]"
    by (auto simp: mini_engine_def mini_all_coeffs_def p split: list.splits)
  from D have d: "degree_in x rep = Degree 1"
    by (simp add: mini_degree_def gens)
  then have "foldr (\<lambda>(m, c) d. max (exponent x m) d) rep 0 = Suc 0"
    by (auto simp: degree_in_def split: if_splits)
  then obtain t where t: "t \<in> set rep" "exponent x (fst t) = Suc 0"
    using max_exponent_attained by blast
  obtain m c where mc: "t = (m, c)" by (cases t)
  have wf: "list_all wf_term rep" unfolding rep by (rule normal_wf)
  then have "wf_mono m" using t(1) mc by (auto simp: list_all_iff wf_term_def)
  moreover have "list_all (\<lambda>(y, k). y \<in> set [x]) m"
    using cover t(1) mc gens by (auto simp: list_all_iff)
  ultimately have "m = [] \<or> (\<exists>k. 0 < k \<and> m = [(x, k)])" by (rule wf_mono_one_name)
  then have "m = [(x, 1)]" using t(2) mc by (auto simp: exponent_def)
  then have lead: "coeff rep (power_of x 1) \<noteq> 0"
    using coeff_present [OF _ wf] t(1) mc by (simp add: power_of_def)
  have "coeffs = [const (coeff rep (power_of x 1)), const (coeff rep (power_of x 0))]"
    using assms(2) d by (simp add: mini_engine_def mini_all_coeffs_def p gens)
  then show ?thesis using lead by (simp add: mini_engine_def const_eq_zero)
qed


lemma other_steps:
  "ustr ''Original equation: '' @ t \<noteq> zero_coefficient_step"
  "ustr ''Simplify to one side: '' @ t \<noteq> zero_coefficient_step"
  "ustr ''Linear equation with a='' @ t \<noteq> zero_coefficient_step"
  "ustr ''Solve: '' @ t \<noteq> zero_coefficient_step"
  "ustr ''Quadratic detected with a='' @ t \<noteq> zero_coefficient_step"
  "ustr ''Discriminant '' @ t \<noteq> zero_coefficient_step"
  "[916] @ t \<noteq> zero_coefficient_step"
  "ustr ''Roots: x = (-b '' @ t \<noteq> zero_coefficient_step"
  "ustr ''Using SymPy general solve'' \<noteq> zero_coefficient_step"
  "ustr ''Solutions: '' @ t \<noteq> zero_coefficient_step"
  "ustr ''Could not solve: '' @ t \<noteq> zero_coefficient_step"
  "parsing_error e \<noteq> zero_coefficient_step"
  "equals_sign_message \<noteq> zero_coefficient_step"
  by (simp_all add: zero_coefficient_step_def ustr_def parsing_error_def equals_sign_message_def)

lemma solve_general_steps:
  assumes "solve_general E eq syms steps = Inr (r, st)" "zero_coefficient_step \<notin> set steps"
  shows "zero_coefficient_step \<notin> set st"
  using assms other_steps [symmetric]
  by (auto simp: solve_general_def Let_def split: sum.splits)

lemma solve_quadratic_steps:
  assumes "solve_quadratic E p steps = Inr (r, st)" "zero_coefficient_step \<notin> set steps"
  shows "zero_coefficient_step \<notin> set st"
  using assms other_steps [symmetric]
  by (auto simp: solve_quadratic_def rbind_def Let_def split: sum.splits list.splits if_splits)

lemma solve_linear_steps:
  assumes "solve_linear E eq syms p steps = Inr (r, st)" "zero_coefficient_step \<notin> set steps"
    and "\<And>a b. all_coeffs E p = Inr [a, b] \<Longrightarrow> \<not> equals_int E a 0"
  shows "zero_coefficient_step \<notin> set st"
  using assms other_steps [symmetric]
  by (auto simp: solve_linear_def rbind_def Let_def split: sum.splits list.splits if_splits)

lemma solve_parsed_steps:
  assumes "solve_parsed mini_engine syms lhs_e rhs_e = Inr (r, st)"
  shows "zero_coefficient_step \<notin> set st"
proof -
  from assms obtain poly expanded where
    c: "(case poly_degree mini_engine poly syms of
           Some (p, Degree (Suc 0)) \<Rightarrow>
             solve_linear mini_engine (lhs_e, rhs_e) syms p
               [ustr ''Original equation: '' @ pretty_eq mini_engine (lhs_e, rhs_e),
                ustr ''Simplify to one side: '' @ pretty mini_engine expanded @ ustr '' = 0'']
         | Some (p, Degree (Suc (Suc 0))) \<Rightarrow>
             solve_quadratic mini_engine p
               [ustr ''Original equation: '' @ pretty_eq mini_engine (lhs_e, rhs_e),
                ustr ''Simplify to one side: '' @ pretty mini_engine expanded @ ustr '' = 0'']
         | _ \<Rightarrow>
             solve_general mini_engine (lhs_e, rhs_e) syms
               [ustr ''Original equation: '' @ pretty_eq mini_engine (lhs_e, rhs_e),
                ustr ''Simplify to one side: '' @ pretty mini_engine expanded @ ustr '' = 0''])
         = Inr (r, st)"
    by (auto simp: solve_parsed_def rbind_def Let_def split: sum.splits)
  let ?steps = "[ustr ''Original equation: '' @ pretty_eq mini_engine (lhs_e, rhs_e),
                ustr ''Simplify to one side: '' @ pretty mini_engine expanded @ ustr '' = 0'']"
  have s0: "zero_coefficient_step \<notin> set ?steps"
    using other_steps [symmetric] by auto
  show ?thesis
  proof (cases "poly_degree mini_engine poly syms")
    case None
    then have "solve_general mini_engine (lhs_e, rhs_e) syms ?steps = Inr (r, st)"
      using c by simp
    then show ?thesis using s0 by (rule solve_general_steps)
  next
    case (Some pd)
    obtain p d where pd: "pd = (p, d)" by (cases pd)
    show ?thesis
    proof (cases "d = Degree 1")
      case True
      then have lin: "solve_linear mini_engine (lhs_e, rhs_e) syms p ?steps = Inr (r, st)"
        using c Some pd by simp
      have nz: "\<not> equals_int mini_engine a 0" if "all_coeffs mini_engine p = Inr [a, b]" for a b
        using mini_leading_coefficient [of poly syms p] Some pd True that by auto
      show ?thesis by (rule solve_linear_steps [OF lin s0 nz])
    next
      case False
      show ?thesis
      proof (cases "d = Degree 2")
        case True
        then have "solve_quadratic mini_engine p ?steps = Inr (r, st)"
          using c Some pd by (simp add: numeral_2_eq_2)
        then show ?thesis using s0 by (rule solve_quadratic_steps)
      next
        case F2: False
        have "solve_general mini_engine (lhs_e, rhs_e) syms ?steps = Inr (r, st)"
          using c Some pd False F2
          by (auto simp: numeral_2_eq_2 split: degree.splits nat.splits)
        then show ?thesis using s0 by (rule solve_general_steps)
      qed
    qed
  qed
qed

lemma solve_equation_steps_no_zero_step:
  assumes "solve_equation_steps mini_engine s = Inr (r, st)"
  shows "zero_coefficient_step \<notin> set st"
  using assms other_steps [symmetric] solve_parsed_steps
  by (auto simp: solve_equation_steps_def Let_def split: list.splits sum.splits prod.splits)


section \<open>Two worked equations\<close>

lemma ex_linear_outcome:
  "solve_equation_steps mini_engine (ustr ''2*x+3=7'') = Inr (Some [const 2], linear_steps)"
  by code_simp

lemma ex_linear_split:
  "py_split 61 (sanitize_input (ustr ''2*x+3=7'')) = [ustr ''2*x+3'', ustr ''7'']"
  by code_simp

lemma ex_linear_zero_form:
  "parsed_zero_form mini_engine (ustr ''2*x+3'') (ustr ''7'') = Inr linear_zero_form"
  by code_simp

lemma ex_linear_degree:
  "poly_degree mini_engine linear_zero_form (detect_symbols (sanitize_input (ustr ''2*x+3=7''))) =
     Some (([ustr ''x''], linear_zero_form), Degree 1)"
  by code_simp

lemma ex_linear_coeffs:
  "all_coeffs mini_engine ([ustr ''x''], linear_zero_form) = Inr [const 2, const (- 4)]"
  by code_simp

lemma ex_linear_text: "list_ex (py_contains (ustr ''Linear equation'')) linear_steps"
  by code_simp

lemma ex_quadratic_outcome:
  "solve_equation_steps mini_engine (ustr ''x^2-5*x+6=0'') =
     Inr (Some [const 3, const 2], quadratic_steps)"
  by code_simp

lemma ex_quadratic_split:
  "py_split 61 (sanitize_input (ustr ''x^2-5*x+6=0'')) = [ustr ''x**2-5*x+6'', ustr ''0'']"
  by code_simp

lemma ex_quadratic_zero_form:
  "parsed_zero_form mini_engine (ustr ''x**2-5*x+6'') (ustr ''0'') = Inr quadratic_zero_form"
  by code_simp

lemma ex_quadratic_degree:
  "poly_degree mini_engine quadratic_zero_form
     (detect_symbols (sanitize_input (ustr ''x^2-5*x+6=0''))) =
     Some (([ustr ''x''], quadratic_zero_form), Degree 2)"
  by code_simp

lemma ex_quadratic_coeffs:
  "all_coeffs mini_engine ([ustr ''x''], quadratic_zero_form) =
     Inr [const 1, const (- 5), const 6]"
  by code_simp

lemma ex_quadratic_discriminant:
  "discriminant mini_engine (const 1) (const (- 5)) (const 6) = Inr (const 1)"
  by code_simp

lemma ex_quadratic_roots:
  "rbind (sp_sqrt mini_engine (const 1)) (\<lambda>r.
     quadratic_root mini_engine Add (const 1) (const (- 5)) r) = Inr (const 3)"
  "rbind (sp_sqrt mini_engine (const 1)) (\<lambda>r.
     quadratic_root mini_engine Sub (const 1) (const (- 5)) r) = Inr (const 2)"
  by code_simp+

lemma ex_quadratic_text: "list_ex (py_contains (ustr ''Discriminant'')) quadratic_steps"
  by code_simp

text \<open>
  C8, on the polynomial engine. For \<open>2*x+3=7\<close>: the sides are \<open>2*x+3\<close> and \<open>7\<close>,
  the zero form is \<open>2*x - 4\<close>, of degree 1 in the detected symbol \<open>x\<close>, with the
  coefficients \<open>a = 2\<close> and \<open>b = -4\<close>; the result is the one solution \<open>2\<close>, and a
  step holds the text \<open>Linear equation\<close>. For \<open>x^2-5*x+6=0\<close>: the caret becomes
  \<open>**\<close>, the zero form is \<open>x**2 - 5*x + 6\<close>, of degree 2, with the coefficients
  \<open>a = 1\<close>, \<open>b = -5\<close>, \<open>c = 6\<close> and the discriminant \<open>1\<close>; the roots are
  \<open>(-b + 1) / (2*a) = 3\<close> and \<open>(-b - 1) / (2*a) = 2\<close>, returned in this order, and a
  step holds the text \<open>Discriminant\<close>.
\<close>

theorem worked_equations:
  "py_split 61 (sanitize_input (ustr ''2*x+3=7'')) = [ustr ''2*x+3'', ustr ''7''] \<and>
   parsed_zero_form mini_engine (ustr ''2*x+3'') (ustr ''7'') = Inr linear_zero_form \<and>
   poly_degree mini_engine linear_zero_form (detect_symbols (sanitize_input (ustr ''2*x+3=7''))) =
     Some (([ustr ''x''], linear_zero_form), Degree 1) \<and>
   all_coeffs mini_engine ([ustr ''x''], linear_zero_form) = Inr [const 2, const (- 4)] \<and>
   solve_equation_steps mini_engine (ustr ''2*x+3=7'') = Inr (Some [const 2], linear_steps) \<and>
   list_ex (py_contains (ustr ''Linear equation'')) linear_steps \<and>
   py_split 61 (sanitize_input (ustr ''x^2-5*x+6=0'')) = [ustr ''x**2-5*x+6'', ustr ''0''] \<and>
   parsed_zero_form mini_engine (ustr ''x**2-5*x+6'') (ustr ''0'') =
     Inr quadratic_zero_form \<and>
   poly_degree mini_engine quadratic_zero_form
     (detect_symbols (sanitize_input (ustr ''x^2-5*x+6=0''))) =
     Some (([ustr ''x''], quadratic_zero_form), Degree 2) \<and>
   all_coeffs mini_engine ([ustr ''x''], quadratic_zero_form) =
     Inr [const 1, const (- 5), const 6] \<and>
   discriminant mini_engine (const 1) (const (- 5)) (const 6) = Inr (const 1) \<and>
   rbind (sp_sqrt mini_engine (const 1)) (\<lambda>r.
     quadratic_root mini_engine Add (const 1) (const (- 5)) r) = Inr (const 3) \<and>
   rbind (sp_sqrt mini_engine (const 1)) (\<lambda>r.
     quadratic_root mini_engine Sub (const 1) (const (- 5)) r) = Inr (const 2) \<and>
   solve_equation_steps mini_engine (ustr ''x^2-5*x+6=0'') =
     Inr (Some [const 3, const 2], quadratic_steps) \<and>
   list_ex (py_contains (ustr ''Discriminant'')) quadratic_steps"
  by (intro conjI ex_linear_split ex_linear_zero_form ex_linear_degree ex_linear_coeffs
      ex_linear_outcome ex_linear_text ex_quadratic_split ex_quadratic_zero_form
      ex_quadratic_degree ex_quadratic_coeffs ex_quadratic_discriminant ex_quadratic_roots
      ex_quadratic_outcome ex_quadratic_text)

section \<open>The branch for a zero leading coefficient\<close>

text \<open>
  C10, on the polynomial engine. When the degree found for the equation is exactly
  1 and \<open>all_coeffs\<close> returns, it returns two coefficients \<open>[a, b]\<close> and \<open>a == 0\<close>
  is false. So \<open>solve_equation_steps\<close> never enters the branch for \<open>a == 0\<close>: for
  no input do the returned steps hold the step of that branch.
\<close>

theorem zero_coefficient_branch_unreachable:
  "(poly_degree mini_engine poly syms = Some (p, Degree 1) \<and>
    all_coeffs mini_engine p = Inr coeffs \<longrightarrow>
      (\<exists>a b. coeffs = [a, b] \<and> \<not> equals_int mini_engine a 0)) \<and>
   (solve_equation_steps mini_engine s = Inr (r, steps) \<longrightarrow>
      zero_coefficient_step \<notin> set steps)"
  using mini_leading_coefficient [of poly syms p coeffs]
    solve_equation_steps_no_zero_step [of s r steps]
  by blast

lemma ex_linear_symbols: "detect_symbols (sanitize_input (ustr ''2*x+3=7'')) = Symbol (ustr ''x'')"
  by code_simp

lemma ex_leading_nonzero: "\<not> equals_int mini_engine (const 2) 0"
  by code_simp

lemma ex_no_zero_step: "zero_coefficient_step \<notin> set linear_steps"
  by code_simp

theorem zero_coefficient_branch_unreachable_witness:
  "poly_degree mini_engine linear_zero_form (Symbol (ustr ''x'')) =
     Some (([ustr ''x''], linear_zero_form), Degree 1) \<and>
   all_coeffs mini_engine ([ustr ''x''], linear_zero_form) = Inr [const 2, const (- 4)] \<and>
   \<not> equals_int mini_engine (const 2) 0 \<and>
   solve_equation_steps mini_engine (ustr ''2*x+3=7'') = Inr (Some [const 2], linear_steps) \<and>
   zero_coefficient_step \<notin> set linear_steps"
  using zero_coefficient_branch_unreachable
      [of linear_zero_form "Symbol (ustr ''x'')" "([ustr ''x''], linear_zero_form)"
         "[const 2, const (- 4)]" "ustr ''2*x+3=7''" "Some [const 2]" linear_steps]
    ex_linear_degree ex_linear_coeffs ex_linear_outcome ex_linear_symbols
  by simp

section \<open>The closed forms and the general solver\<close>

subsection \<open>Arithmetic of the polynomial engine on numbers\<close>

lemma as_const_const [simp]: "as_const (const c) = Some c"
  by (simp add: as_const_def const_def)

lemma number_of_const [simp]: "number_of (const c) = c"
  by (simp add: number_of_def)

lemma const_inject [simp]: "const a = const b \<longleftrightarrow> a = b"
  by (auto simp: const_def)

lemma normal_const: "normal [([], c)] = const c"
  by (simp add: normal_def norm_mono_def const_def)

lemma pscale_const [simp]: "pscale k (const a) = const (k * a)"
  by (simp add: pscale_def const_def normal_def norm_mono_def)

lemma padd_const [simp]: "padd (const a) (const b) = const (a + b)"
  by (auto simp: padd_def const_def normal_def norm_mono_def)

lemma pmul_const [simp]: "pmul (const a) (const b) = const (a * b)"
  by (auto simp: pmul_def const_def normal_def norm_mono_def)







subsection \<open>The coefficients of a polynomial of positive degree\<close>






subsection \<open>The general solver returns the roots\<close>

text \<open>
  For the degree 1, and for the degree 2 when the discriminant has a rational square
  root, the elements of the general solver's result are the numbers at which the
  polynomial has the value 0.
\<close>

lemma nat_sqrt_square: "nat_sqrt n = Some k \<Longrightarrow> k * k = n"
  by (auto simp: nat_sqrt_def find_Some_iff)

lemma rat_sqrt_square:
  assumes "rat_sqrt d = Some s"
  shows "s * s = d"
proof -
  obtain p q where pq: "quotient_of d = (p, q)" by (cases "quotient_of d")
  from assms pq obtain a b where p: "0 \<le> p" and a: "nat_sqrt (nat p) = Some a"
    and b: "nat_sqrt (nat q) = Some b" and s: "s = of_nat a / of_nat b"
    by (auto simp: rat_sqrt_def split: if_splits option.splits)
  have q: "0 < q" using pq by (rule quotient_of_denom_pos)
  have "of_nat (a * a) = (of_int p :: rat)" using nat_sqrt_square [OF a] p
    by (metis of_nat_nat)
  moreover have "of_nat (b * b) = (of_int q :: rat)" using nat_sqrt_square [OF b] q
    by (metis of_nat_nat less_imp_le)
  moreover have "d = of_int p / of_int q" using pq by (rule quotient_of_div)
  ultimately show ?thesis unfolding s by simp
qed

lemma linear_roots:
  fixes a b :: rat
  assumes "a \<noteq> 0"
  shows "poly_value [a, b] r = 0 \<longleftrightarrow> r = - b / a"
proof -
  have "a * r + b = 0 \<longleftrightarrow> a * r = - b" by (simp add: eq_neg_iff_add_eq_0)
  also have "\<dots> \<longleftrightarrow> r = - b / a" using assms by (auto simp: field_simps)
  finally show ?thesis by (simp add: poly_value_def)
qed

lemma quadratic_roots:
  fixes a b c s :: rat
  assumes "a \<noteq> 0" "s * s = b * b - 4 * a * c"
  shows "poly_value [a, b, c] r = 0 \<longleftrightarrow>
           r = (- b + s) / (2 * a) \<or> r = (- b - s) / (2 * a)"
proof -
  have "4 * a * ((a * r + b) * r + c) = (2 * a * r + b) * (2 * a * r + b) - s * s"
    unfolding assms(2) by (simp add: algebra_simps)
  also have "\<dots> = (2 * a * r + b - s) * (2 * a * r + b + s)"
    by (simp add: algebra_simps)
  finally have "(a * r + b) * r + c = 0 \<longleftrightarrow>
      2 * a * r + b - s = 0 \<or> 2 * a * r + b + s = 0"
    using assms(1) by (metis mult_eq_0_iff zero_neq_numeral)
  moreover have "2 * a * r + b - s = 0 \<longleftrightarrow> r = (- b + s) / (2 * a)"
    using assms(1) by (auto simp: field_simps)
  moreover have "2 * a * r + b + s = 0 \<longleftrightarrow> r = (- b - s) / (2 * a)"
    using assms(1) by (auto simp: field_simps)
  ultimately show ?thesis by (simp add: poly_value_def)
qed

lemma formula_root_const: "formula_root a b (const s) = const ((- b + s) / (2 * a))"
  by (simp add: formula_root_def)

lemma linear_solution_is_root:
  assumes "a \<noteq> 0"
  shows "solve_poly (Degree 1) [const a, const b] = Inr [const (- b / a)]"
    and "set [const (- b / a)] = {const r | r. poly_value [a, b] r = 0}"
  using linear_roots [OF assms, of b] by (auto simp: solve_poly_def)

lemma quadratic_solutions_are_roots:
  assumes "a \<noteq> 0" and "rat_sqrt (b * b - 4 * a * c) = Some s"
  shows "solve_poly (Degree 2) [const a, const b, const c] = Inr (quadratic_solutions a b c)"
    and "set (quadratic_solutions a b c) = {const r | r. poly_value [a, b, c] r = 0}"
proof -
  show "solve_poly (Degree 2) [const a, const b, const c] = Inr (quadratic_solutions a b c)"
    by (simp add: solve_poly_def)
  have s: "surd (b * b - 4 * a * c) = const s"
    using assms(2) by (simp add: surd_def)
  have "set (quadratic_solutions a b c) =
      {const ((- b + s) / (2 * a)), const ((- b - s) / (2 * a))}"
    by (auto simp: quadratic_solutions_def Let_def s formula_root_const)
  then show "set (quadratic_solutions a b c) = {const r | r. poly_value [a, b, c] r = 0}"
    using quadratic_roots [OF assms(1) rat_sqrt_square [OF assms(2)]] by auto
qed

subsection \<open>The two closed forms and the general solver on the polynomial engine\<close>


















end
